theory Spec2Isabelle
  imports Main "HOL-Library.Sublist"
begin

section \<open>The Go library functions the annotation parser calls\<close>

text \<open>
  A Go string is a sequence of bytes, modelled as \<open>string\<close> (a list of 8-bit
  characters). The functions of this section are the ones of packages
  \<^verbatim>\<open>strings\<close>, \<^verbatim>\<open>unicode\<close> and \<^verbatim>\<open>strconv\<close> that \<^verbatim>\<open>ParseAnnotation\<close> calls.

  \<^verbatim>\<open>unicode.IsSpace\<close> accepts the code points U+0009..U+000D, U+0020, U+0085, U+00A0,
  U+1680, U+2000..U+200A, U+2028, U+2029, U+202F, U+205F and U+3000. In UTF-8 the first
  six are one byte, U+0085 and U+00A0 are two bytes (C2 85, C2 A0) and the others are
  three bytes. An invalid byte decodes to U+FFFD with width one, which is not a space.
\<close>

definition asciiSpace :: "char \<Rightarrow> bool" where
  "asciiSpace c = (c = CHR 0x09 \<or> c = CHR 0x0A \<or> c = CHR 0x0B \<or> c = CHR 0x0C
     \<or> c = CHR 0x0D \<or> c = CHR 0x20)"

definition isSpace2 :: "char \<Rightarrow> char \<Rightarrow> bool" where
  "isSpace2 a b = (a = CHR 0xC2 \<and> (b = CHR 0x85 \<or> b = CHR 0xA0))"

definition isSpace3 :: "char \<Rightarrow> char \<Rightarrow> char \<Rightarrow> bool" where
  "isSpace3 a b c =
     ((a = CHR 0xE1 \<and> b = CHR 0x9A \<and> c = CHR 0x80)
    \<or> (a = CHR 0xE2 \<and> b = CHR 0x80 \<and>
         ((128 \<le> (of_char c :: nat) \<and> (of_char c :: nat) \<le> 138)
          \<or> c = CHR 0xA8 \<or> c = CHR 0xA9 \<or> c = CHR 0xAF))
    \<or> (a = CHR 0xE2 \<and> b = CHR 0x81 \<and> c = CHR 0x9F)
    \<or> (a = CHR 0xE3 \<and> b = CHR 0x80 \<and> c = CHR 0x80))"

text \<open>
  \<^verbatim>\<open>strings.TrimLeftFunc(s, unicode.IsSpace)\<close>: decode runes from the front and drop
  them while they are spaces.
\<close>

fun TrimLeft :: "string \<Rightarrow> string" where
  "TrimLeft (a # b # c # cs) =
     (if asciiSpace a then TrimLeft (b # c # cs)
      else if isSpace2 a b then TrimLeft (c # cs)
      else if isSpace3 a b c then TrimLeft cs
      else a # b # c # cs)"
| "TrimLeft [a, b] =
     (if asciiSpace a then TrimLeft [b]
      else if isSpace2 a b then []
      else [a, b])"
| "TrimLeft [a] = (if asciiSpace a then [] else [a])"
| "TrimLeft [] = []"

text \<open>
  \<^verbatim>\<open>strings.TrimRightFunc(s, unicode.IsSpace)\<close>: decode runes from the back
  (\<^verbatim>\<open>utf8.DecodeLastRuneInString\<close>) and drop them while they are spaces.
  \<open>TrimRightRev\<close> works on the reversed string, so its head is the last byte.
\<close>

fun TrimRightRev :: "string \<Rightarrow> string" where
  "TrimRightRev (c # b # a # cs) =
     (if asciiSpace c then TrimRightRev (b # a # cs)
      else if isSpace2 b c then TrimRightRev (a # cs)
      else if isSpace3 a b c then TrimRightRev cs
      else c # b # a # cs)"
| "TrimRightRev [c, b] =
     (if asciiSpace c then TrimRightRev [b]
      else if isSpace2 b c then []
      else [c, b])"
| "TrimRightRev [c] = (if asciiSpace c then [] else [c])"
| "TrimRightRev [] = []"

definition TrimRight :: "string \<Rightarrow> string" where
  "TrimRight s = rev (TrimRightRev (rev s))"

text \<open>\<^verbatim>\<open>strings.TrimSpace\<close>: leading spaces go first, then trailing ones.\<close>

definition TrimSpace :: "string \<Rightarrow> string" where
  "TrimSpace s = TrimRight (TrimLeft s)"

text \<open>\<^verbatim>\<open>strings.HasPrefix\<close>.\<close>

definition HasPrefix :: "string \<Rightarrow> string \<Rightarrow> bool" where
  "HasPrefix s p = prefix p s"

text \<open>
  \<^verbatim>\<open>strings.Index\<close>: the position of the first occurrence of \<open>sub\<close> in \<open>s\<close>;
  \<open>None\<close> stands for Go's \<open>-1\<close>.
\<close>

fun Index :: "string \<Rightarrow> string \<Rightarrow> nat option" where
  "Index [] sub = (if sub = [] then Some 0 else None)"
| "Index (x # xs) sub =
     (if prefix sub (x # xs) then Some 0 else map_option Suc (Index xs sub))"

text \<open>\<^verbatim>\<open>strings.Contains(s, substr)\<close> is \<^verbatim>\<open>Index(s, substr) >= 0\<close>.\<close>

definition Contains :: "string \<Rightarrow> string \<Rightarrow> bool" where
  "Contains s sub = (Index s sub \<noteq> None)"

text \<open>
  \<^verbatim>\<open>strings.SplitN(s, sep, n)\<close> for a non-empty separator and \<open>n \<ge> 0\<close> (the
  parser calls it with the separators \<^verbatim>\<open>":"\<close> and \<^verbatim>\<open>"="\<close> and \<open>n = 2\<close>): at most
  \<open>n\<close> pieces, the last one the unsplit rest.
\<close>

fun SplitN :: "string \<Rightarrow> string \<Rightarrow> nat \<Rightarrow> string list" where
  "SplitN s sep 0 = []"
| "SplitN s sep (Suc 0) = [s]"
| "SplitN s sep (Suc (Suc n)) =
     (case Index s sep of
        None \<Rightarrow> [s]
      | Some m \<Rightarrow> take m s # SplitN (drop (m + length sep) s) sep (Suc n))"

section \<open>Errors\<close>

text \<open>
  One constructor for each \<^verbatim>\<open>fmt.Errorf\<close> of the package, holding the arguments of
  the format, and one for the syntax error of \<^verbatim>\<open>strconv.ParseBool\<close>.
\<close>

datatype error =
    MustStartWithAt string
  | UnknownAnnotation string
  | UnknownAnnotationWithValue string string
  | ErrSyntax string

fun Error :: "error \<Rightarrow> string" where
  "Error (MustStartWithAt a) = ''annotation must start with @: '' @ a"
| "Error (UnknownAnnotation k) = ''unknown annotation: @'' @ k"
| "Error (UnknownAnnotationWithValue k v) =
     ''unknown annotation with value: @'' @ k @ ''='' @ v"
| "Error (ErrSyntax s) = ''strconv.ParseBool: parsing '' @ s @ '': invalid syntax''"

text \<open>\<^verbatim>\<open>strconv.ParseBool\<close>: the value and the error.\<close>

definition ParseBool :: "string \<Rightarrow> bool \<times> error option" where
  "ParseBool str =
     (if str = ''1'' \<or> str = ''t'' \<or> str = ''T'' \<or> str = ''TRUE'' \<or> str = ''true''
         \<or> str = ''True'' then (True, None)
      else if str = ''0'' \<or> str = ''f'' \<or> str = ''F'' \<or> str = ''FALSE''
         \<or> str = ''false'' \<or> str = ''False'' then (False, None)
      else (False, Some (ErrSyntax str)))"

section \<open>The configuration core, \<^verbatim>\<open>interface{}\<close> version\<close>

text \<open>
  The dynamic values an \<^verbatim>\<open>interface{}\<close> holds in this package: nothing (the zero
  value), a \<^verbatim>\<open>bool\<close> or a \<^verbatim>\<open>string\<close>.
\<close>

datatype iface = INil | IBool bool | IString string

record EnumConfigValue =
  Value :: iface
  Valid :: bool

text \<open>
  \<^verbatim>\<open>GetBool\<close> and \<^verbatim>\<open>GetString\<close>: the stored value when the slot is valid and the type
  assertion succeeds, the default otherwise.
\<close>

definition GetBool :: "EnumConfigValue \<Rightarrow> bool \<Rightarrow> bool" where
  "GetBool v defaultValue =
     (if Valid v then (case Value v of IBool b \<Rightarrow> b | _ \<Rightarrow> defaultValue)
      else defaultValue)"

definition GetString :: "EnumConfigValue \<Rightarrow> string \<Rightarrow> string" where
  "GetString v defaultValue =
     (if Valid v then (case Value v of IString s \<Rightarrow> s | _ \<Rightarrow> defaultValue)
      else defaultValue)"

record EnumConfig =
  NoPrefix :: EnumConfigValue
  NoIota :: EnumConfigValue
  LowercaseLookup :: EnumConfigValue
  CaseInsensitive :: EnumConfigValue
  Marshal :: EnumConfigValue
  SQL :: EnumConfigValue
  SQLInt :: EnumConfigValue
  Flag :: EnumConfigValue
  Names :: EnumConfigValue
  Values :: EnumConfigValue
  LeaveSnakeCase :: EnumConfigValue
  Ptr :: EnumConfigValue
  SQLNullInt :: EnumConfigValue
  SQLNullStr :: EnumConfigValue
  MustParse :: EnumConfigValue
  ForceLower :: EnumConfigValue
  ForceUpper :: EnumConfigValue
  NoComments :: EnumConfigValue
  NoParse :: EnumConfigValue
  Prefix :: EnumConfigValue

text \<open>The zero value of \<^verbatim>\<open>EnumConfigValue\<close>, and \<^verbatim>\<open>NewEnumConfig\<close>: every slot zero.\<close>

definition zeroValue :: EnumConfigValue where
  "zeroValue = \<lparr>Value = INil, Valid = False\<rparr>"

definition NewEnumConfig :: EnumConfig where
  "NewEnumConfig =
     \<lparr>NoPrefix = zeroValue, NoIota = zeroValue, LowercaseLookup = zeroValue,
      CaseInsensitive = zeroValue, Marshal = zeroValue, SQL = zeroValue,
      SQLInt = zeroValue, Flag = zeroValue, Names = zeroValue, Values = zeroValue,
      LeaveSnakeCase = zeroValue, Ptr = zeroValue, SQLNullInt = zeroValue,
      SQLNullStr = zeroValue, MustParse = zeroValue, ForceLower = zeroValue,
      ForceUpper = zeroValue, NoComments = zeroValue, NoParse = zeroValue,
      Prefix = zeroValue\<rparr>"

text \<open>
  The methods of \<^verbatim>\<open>*EnumConfig\<close> mutate the receiver and return an error. The model
  passes the configuration in and returns the error (\<open>None\<close> is \<^verbatim>\<open>nil\<close>) together
  with the configuration the receiver holds afterwards.
\<close>

definition setBoolOption :: "string \<Rightarrow> bool \<Rightarrow> EnumConfig \<Rightarrow> error option \<times> EnumConfig" where
  "setBoolOption key val ec =
     (if key = ''noprefix'' then
        (None, ec\<lparr>NoPrefix := \<lparr>Value = IBool val, Valid = True\<rparr>\<rparr>)
      else if key = ''noiota'' then
        (None, ec\<lparr>NoIota := \<lparr>Value = IBool val, Valid = True\<rparr>\<rparr>)
      else if key = ''lower'' then
        (None, ec\<lparr>LowercaseLookup := \<lparr>Value = IBool val, Valid = True\<rparr>\<rparr>)
      else if key = ''nocase'' then
        (let ec1 = ec\<lparr>CaseInsensitive := \<lparr>Value = IBool val, Valid = True\<rparr>\<rparr>
         in if val then
              (None, ec1\<lparr>LowercaseLookup := \<lparr>Value = IBool True, Valid = True\<rparr>\<rparr>)
            else (None, ec1))
      else if key = ''marshal'' then
        (None, ec\<lparr>Marshal := \<lparr>Value = IBool val, Valid = True\<rparr>\<rparr>)
      else if key = ''sql'' then
        (None, ec\<lparr>SQL := \<lparr>Value = IBool val, Valid = True\<rparr>\<rparr>)
      else if key = ''sqlint'' then
        (None, ec\<lparr>SQLInt := \<lparr>Value = IBool val, Valid = True\<rparr>\<rparr>)
      else if key = ''flag'' then
        (None, ec\<lparr>Flag := \<lparr>Value = IBool val, Valid = True\<rparr>\<rparr>)
      else if key = ''names'' then
        (None, ec\<lparr>Names := \<lparr>Value = IBool val, Valid = True\<rparr>\<rparr>)
      else if key = ''values'' then
        (None, ec\<lparr>Values := \<lparr>Value = IBool val, Valid = True\<rparr>\<rparr>)
      else if key = ''nocamel'' then
        (None, ec\<lparr>LeaveSnakeCase := \<lparr>Value = IBool val, Valid = True\<rparr>\<rparr>)
      else if key = ''ptr'' then
        (None, ec\<lparr>Ptr := \<lparr>Value = IBool val, Valid = True\<rparr>\<rparr>)
      else if key = ''sqlnullint'' then
        (None, ec\<lparr>SQLNullInt := \<lparr>Value = IBool val, Valid = True\<rparr>\<rparr>)
      else if key = ''sqlnullstr'' then
        (None, ec\<lparr>SQLNullStr := \<lparr>Value = IBool val, Valid = True\<rparr>\<rparr>)
      else if key = ''mustparse'' then
        (None, ec\<lparr>MustParse := \<lparr>Value = IBool val, Valid = True\<rparr>\<rparr>)
      else if key = ''forcelower'' then
        (None, ec\<lparr>ForceLower := \<lparr>Value = IBool val, Valid = True\<rparr>\<rparr>)
      else if key = ''forceupper'' then
        (None, ec\<lparr>ForceUpper := \<lparr>Value = IBool val, Valid = True\<rparr>\<rparr>)
      else if key = ''nocomments'' then
        (None, ec\<lparr>NoComments := \<lparr>Value = IBool val, Valid = True\<rparr>\<rparr>)
      else if key = ''noparse'' then
        (None, ec\<lparr>NoParse := \<lparr>Value = IBool val, Valid = True\<rparr>\<rparr>)
      else (Some (UnknownAnnotation key), ec))"

definition setStringOption :: "string \<Rightarrow> string \<Rightarrow> EnumConfig \<Rightarrow> error option \<times> EnumConfig" where
  "setStringOption key val ec =
     (if key = ''prefix'' then
        (None, ec\<lparr>Prefix := \<lparr>Value = IString val, Valid = True\<rparr>\<rparr>)
      else (Some (UnknownAnnotationWithValue key val), ec))"

text \<open>
  The quote-stripping block, which the source has twice with the same text (in the
  \<^verbatim>\<open>key:value\<close> and in the \<^verbatim>\<open>key=value\<close> branch): a value of at least two bytes
  that starts and ends with \<^verbatim>\<open>"\<close>, or starts and ends with \<^verbatim>\<open>'\<close>, loses its first and
  last byte.
\<close>

definition stripQuotes :: "string \<Rightarrow> string" where
  "stripQuotes val =
     (if length val \<ge> 2 \<and>
         ((val ! 0 = CHR 0x22 \<and> val ! (length val - 1) = CHR 0x22) \<or>
          (val ! 0 = CHR 0x27 \<and> val ! (length val - 1) = CHR 0x27))
      then take (length val - 1 - 1) (drop 1 val)
      else val)"

text \<open>
  \<^verbatim>\<open>ParseAnnotation\<close>. The source reassigns \<^verbatim>\<open>annotation\<close> twice; the model names
  the three values \<open>annotation0\<close> (the argument), \<open>annotation1\<close> (trimmed) and
  \<open>annotation\<close> (without the marker). \<^verbatim>\<open>parts[0]\<close> and \<^verbatim>\<open>parts[1]\<close> are read only
  after \<^verbatim>\<open>strings.Contains\<close> has found the separator, where \<^verbatim>\<open>SplitN\<close> returns two
  pieces (lemma \<open>SplitN_single\<close> below), so neither read is out of range. The
  receiver is taken to be non-nil.
\<close>

definition ParseAnnotation :: "string \<Rightarrow> EnumConfig \<Rightarrow> error option \<times> EnumConfig" where
  "ParseAnnotation annotation0 ec =
     (let annotation1 = TrimSpace annotation0 in
      if annotation1 = [] then (None, ec)
      else if \<not> HasPrefix annotation1 ''@'' then (Some (MustStartWithAt annotation1), ec)
      else
        let annotation = drop 1 annotation1 in
        if Contains annotation '':'' then
          (let parts = SplitN annotation '':'' 2;
               key = TrimSpace (parts ! 0);
               val = TrimSpace (parts ! 1)
           in if val = ''true'' \<or> val = ''false'' then
                setBoolOption key (fst (ParseBool val)) ec
              else setStringOption key (stripQuotes val) ec)
        else if Contains annotation ''='' then
          (let parts = SplitN annotation ''='' 2;
               key = TrimSpace (parts ! 0);
               val = TrimSpace (parts ! 1)
           in setStringOption key (stripQuotes val) ec)
        else setBoolOption annotation True ec)"

section \<open>The configuration core, generic version\<close>

text \<open>
  The second version of the file declares \<^verbatim>\<open>EnumConfigValue[T ~string | ~bool]\<close> with
  a \<open>Value\<close> of type \<open>T\<close>. Its names carry the suffix \<open>_g\<close> here. In the receivers
  \<^verbatim>\<open>(v *EnumConfigValue[bool])\<close> and \<^verbatim>\<open>(v *EnumConfigValue[string])\<close> the identifier in
  brackets names the type parameter, so both methods exist at every \<open>T\<close> and take and
  return a \<open>T\<close>.
\<close>

record 'a EnumConfigValue_g =
  Value_g :: 'a
  Valid_g :: bool

definition GetBool_g :: "'a EnumConfigValue_g \<Rightarrow> 'a \<Rightarrow> 'a" where
  "GetBool_g v def = (if Valid_g v then Value_g v else def)"

definition GetString_g :: "'a EnumConfigValue_g \<Rightarrow> 'a \<Rightarrow> 'a" where
  "GetString_g v def = (if Valid_g v then Value_g v else def)"

record EnumConfig_g =
  NoPrefix_g :: "bool EnumConfigValue_g"
  NoIota_g :: "bool EnumConfigValue_g"
  LowercaseLookup_g :: "bool EnumConfigValue_g"
  CaseInsensitive_g :: "bool EnumConfigValue_g"
  Marshal_g :: "bool EnumConfigValue_g"
  SQL_g :: "bool EnumConfigValue_g"
  SQLInt_g :: "bool EnumConfigValue_g"
  Flag_g :: "bool EnumConfigValue_g"
  Names_g :: "bool EnumConfigValue_g"
  Values_g :: "bool EnumConfigValue_g"
  LeaveSnakeCase_g :: "bool EnumConfigValue_g"
  Ptr_g :: "bool EnumConfigValue_g"
  SQLNullInt_g :: "bool EnumConfigValue_g"
  SQLNullStr_g :: "bool EnumConfigValue_g"
  MustParse_g :: "bool EnumConfigValue_g"
  ForceLower_g :: "bool EnumConfigValue_g"
  ForceUpper_g :: "bool EnumConfigValue_g"
  NoComments_g :: "bool EnumConfigValue_g"
  NoParse_g :: "bool EnumConfigValue_g"
  Prefix_g :: "string EnumConfigValue_g"

text \<open>The zero values of \<^verbatim>\<open>bool\<close> and \<^verbatim>\<open>string\<close> slots, and \<^verbatim>\<open>NewEnumConfig\<close>.\<close>

definition zeroBool_g :: "bool EnumConfigValue_g" where
  "zeroBool_g = \<lparr>Value_g = False, Valid_g = False\<rparr>"

definition zeroString_g :: "string EnumConfigValue_g" where
  "zeroString_g = \<lparr>Value_g = [], Valid_g = False\<rparr>"

definition NewEnumConfig_g :: EnumConfig_g where
  "NewEnumConfig_g =
     \<lparr>NoPrefix_g = zeroBool_g,
      NoIota_g = zeroBool_g,
      LowercaseLookup_g = zeroBool_g,
      CaseInsensitive_g = zeroBool_g,
      Marshal_g = zeroBool_g,
      SQL_g = zeroBool_g,
      SQLInt_g = zeroBool_g,
      Flag_g = zeroBool_g,
      Names_g = zeroBool_g,
      Values_g = zeroBool_g,
      LeaveSnakeCase_g = zeroBool_g,
      Ptr_g = zeroBool_g,
      SQLNullInt_g = zeroBool_g,
      SQLNullStr_g = zeroBool_g,
      MustParse_g = zeroBool_g,
      ForceLower_g = zeroBool_g,
      ForceUpper_g = zeroBool_g,
      NoComments_g = zeroBool_g,
      NoParse_g = zeroBool_g,
      Prefix_g = zeroString_g\<rparr>"

definition setBoolOption_g :: "string \<Rightarrow> bool \<Rightarrow> EnumConfig_g \<Rightarrow> error option \<times> EnumConfig_g" where
  "setBoolOption_g key val ec =
     (if key = ''noprefix'' then
        (None, ec\<lparr>NoPrefix_g := \<lparr>Value_g = val, Valid_g = True\<rparr>\<rparr>)
      else if key = ''noiota'' then
        (None, ec\<lparr>NoIota_g := \<lparr>Value_g = val, Valid_g = True\<rparr>\<rparr>)
      else if key = ''lower'' then
        (None, ec\<lparr>LowercaseLookup_g := \<lparr>Value_g = val, Valid_g = True\<rparr>\<rparr>)
      else if key = ''nocase'' then
        (let ec1 = ec\<lparr>CaseInsensitive_g := \<lparr>Value_g = val, Valid_g = True\<rparr>\<rparr>
         in if val then
              (None, ec1\<lparr>LowercaseLookup_g := \<lparr>Value_g = True, Valid_g = True\<rparr>\<rparr>)
            else (None, ec1))
      else if key = ''marshal'' then
        (None, ec\<lparr>Marshal_g := \<lparr>Value_g = val, Valid_g = True\<rparr>\<rparr>)
      else if key = ''sql'' then
        (None, ec\<lparr>SQL_g := \<lparr>Value_g = val, Valid_g = True\<rparr>\<rparr>)
      else if key = ''sqlint'' then
        (None, ec\<lparr>SQLInt_g := \<lparr>Value_g = val, Valid_g = True\<rparr>\<rparr>)
      else if key = ''flag'' then
        (None, ec\<lparr>Flag_g := \<lparr>Value_g = val, Valid_g = True\<rparr>\<rparr>)
      else if key = ''names'' then
        (None, ec\<lparr>Names_g := \<lparr>Value_g = val, Valid_g = True\<rparr>\<rparr>)
      else if key = ''values'' then
        (None, ec\<lparr>Values_g := \<lparr>Value_g = val, Valid_g = True\<rparr>\<rparr>)
      else if key = ''nocamel'' then
        (None, ec\<lparr>LeaveSnakeCase_g := \<lparr>Value_g = val, Valid_g = True\<rparr>\<rparr>)
      else if key = ''ptr'' then
        (None, ec\<lparr>Ptr_g := \<lparr>Value_g = val, Valid_g = True\<rparr>\<rparr>)
      else if key = ''sqlnullint'' then
        (None, ec\<lparr>SQLNullInt_g := \<lparr>Value_g = val, Valid_g = True\<rparr>\<rparr>)
      else if key = ''sqlnullstr'' then
        (None, ec\<lparr>SQLNullStr_g := \<lparr>Value_g = val, Valid_g = True\<rparr>\<rparr>)
      else if key = ''mustparse'' then
        (None, ec\<lparr>MustParse_g := \<lparr>Value_g = val, Valid_g = True\<rparr>\<rparr>)
      else if key = ''forcelower'' then
        (None, ec\<lparr>ForceLower_g := \<lparr>Value_g = val, Valid_g = True\<rparr>\<rparr>)
      else if key = ''forceupper'' then
        (None, ec\<lparr>ForceUpper_g := \<lparr>Value_g = val, Valid_g = True\<rparr>\<rparr>)
      else if key = ''nocomments'' then
        (None, ec\<lparr>NoComments_g := \<lparr>Value_g = val, Valid_g = True\<rparr>\<rparr>)
      else if key = ''noparse'' then
        (None, ec\<lparr>NoParse_g := \<lparr>Value_g = val, Valid_g = True\<rparr>\<rparr>)
      else (Some (UnknownAnnotation key), ec))"

definition setStringOption_g :: "string \<Rightarrow> string \<Rightarrow> EnumConfig_g \<Rightarrow> error option \<times> EnumConfig_g" where
  "setStringOption_g key val ec =
     (if key = ''prefix'' then
        (None, ec\<lparr>Prefix_g := \<lparr>Value_g = val, Valid_g = True\<rparr>\<rparr>)
      else (Some (UnknownAnnotationWithValue key val), ec))"

definition ParseAnnotation_g :: "string \<Rightarrow> EnumConfig_g \<Rightarrow> error option \<times> EnumConfig_g" where
  "ParseAnnotation_g annotation0 ec =
     (let annotation1 = TrimSpace annotation0 in
      if annotation1 = [] then (None, ec)
      else if \<not> HasPrefix annotation1 ''@'' then (Some (MustStartWithAt annotation1), ec)
      else
        let annotation = drop 1 annotation1 in
        if Contains annotation '':'' then
          (let parts = SplitN annotation '':'' 2;
               key = TrimSpace (parts ! 0);
               val = TrimSpace (parts ! 1)
           in if val = ''true'' \<or> val = ''false'' then
                setBoolOption_g key (fst (ParseBool val)) ec
              else setStringOption_g key (stripQuotes val) ec)
        else if Contains annotation ''='' then
          (let parts = SplitN annotation ''='' 2;
               key = TrimSpace (parts ! 0);
               val = TrimSpace (parts ! 1)
           in setStringOption_g key (stripQuotes val) ec)
        else setBoolOption_g annotation True ec)"

section \<open>Notions the properties are stated with\<close>

text \<open>
  A caller that applies a sequence of directives to one configuration, one
  \<^verbatim>\<open>ParseAnnotation\<close> call after the other on the same receiver, keeping the outcome of
  each call.
\<close>

fun applyAll :: "string list \<Rightarrow> EnumConfig \<Rightarrow> error option list \<times> EnumConfig" where
  "applyAll [] ec = ([], ec)"
| "applyAll (a # as) ec =
     (let r = ParseAnnotation a ec; rs = applyAll as (snd r)
      in (fst r # fst rs, snd rs))"

fun applyAll_g :: "string list \<Rightarrow> EnumConfig_g \<Rightarrow> error option list \<times> EnumConfig_g" where
  "applyAll_g [] ec = ([], ec)"
| "applyAll_g (a # as) ec =
     (let r = ParseAnnotation_g a ec; rs = applyAll_g as (snd r)
      in (fst r # fst rs, snd rs))"

text \<open>The twenty slots of a configuration, in the order of the struct, and how many are set.\<close>

definition slots :: "EnumConfig \<Rightarrow> EnumConfigValue list" where
  "slots ec =
    [NoPrefix ec, NoIota ec, LowercaseLookup ec, CaseInsensitive ec, Marshal ec, SQL ec,
     SQLInt ec, Flag ec, Names ec, Values ec, LeaveSnakeCase ec, Ptr ec, SQLNullInt ec,
     SQLNullStr ec, MustParse ec, ForceLower ec, ForceUpper ec, NoComments ec,
     NoParse ec, Prefix ec]"

definition validCount :: "EnumConfig \<Rightarrow> nat" where
  "validCount ec = length (filter Valid (slots ec))"

text \<open>A slot that is set and holds the boolean \<open>b\<close>.\<close>

definition setTo :: "EnumConfigValue \<Rightarrow> bool \<Rightarrow> bool" where
  "setTo v b = (Valid v \<and> Value v = IBool b)"

text \<open>The implication between the two case options: \<open>nocase\<close> set true implies \<open>lower\<close> set true.\<close>

definition nocaseImpliesLower :: "EnumConfig \<Rightarrow> bool" where
  "nocaseImpliesLower ec = (setTo (CaseInsensitive ec) True \<longrightarrow> setTo (LowercaseLookup ec) True)"

text \<open>
  A directive that sets \<^verbatim>\<open>lower\<close> to false: applied to a fresh configuration it
  succeeds and leaves exactly the \<open>LowercaseLookup\<close> slot set, with the value false
  (\<^verbatim>\<open>@lower:false\<close> is one).
\<close>

definition setsLowerFalse :: "string \<Rightarrow> bool" where
  "setsLowerFalse d =
     (ParseAnnotation d NewEnumConfig =
        (None, NewEnumConfig\<lparr>LowercaseLookup := \<lparr>Value = IBool False, Valid = True\<rparr>\<rparr>))"

text \<open>
  Somewhere in a sequence of directives, applied from the configuration \<open>ec\<close> on, a
  directive sets \<^verbatim>\<open>lower\<close> to false while \<open>CaseInsensitive\<close> is set true.
\<close>

fun lowerFalseAfterNocase :: "string list \<Rightarrow> EnumConfig \<Rightarrow> bool" where
  "lowerFalseAfterNocase [] ec = False"
| "lowerFalseAfterNocase (d # ds) ec =
     ((setsLowerFalse d \<and> setTo (CaseInsensitive ec) True)
      \<or> lowerFalseAfterNocase ds (snd (ParseAnnotation d ec)))"

text \<open>
  The directive of the form \<^verbatim>\<open>@key:true\<close> or \<^verbatim>\<open>@key:false\<close> for a key and a boolean.
\<close>

definition boolText :: "bool \<Rightarrow> string" where
  "boolText v = (if v then ''true'' else ''false'')"

definition boolDirective :: "string \<Rightarrow> bool \<Rightarrow> string" where
  "boolDirective k v = ''@'' @ k @ '':'' @ boolText v"

text \<open>
  The value a non-empty directive with body \<open>body\<close> (its text after the marker) hands
  to the option setter, in the words of the grammar: after the first \<^verbatim>\<open>:\<close>, the
  literals \<^verbatim>\<open>true\<close> and \<^verbatim>\<open>false\<close> are booleans and anything else is a string
  without its quotes; else after the first \<^verbatim>\<open>=\<close>, a string without its quotes; else the
  boolean true.
\<close>

definition afterFirst :: "char \<Rightarrow> string \<Rightarrow> string" where
  "afterFirst x body = drop 1 (dropWhile (\<lambda>y. y \<noteq> x) body)"

definition beforeFirst :: "char \<Rightarrow> string \<Rightarrow> string" where
  "beforeFirst x body = takeWhile (\<lambda>y. y \<noteq> x) body"

definition parsedValue :: "string \<Rightarrow> iface" where
  "parsedValue body =
     (if CHR '':'' \<in> set body then
        (let val = TrimSpace (afterFirst CHR '':'' body)
         in if val = ''true'' then IBool True
            else if val = ''false'' then IBool False
            else IString (stripQuotes val))
      else if CHR ''='' \<in> set body then
        IString (stripQuotes (TrimSpace (afterFirst CHR ''='' body)))
      else IBool True)"

text \<open>
  When a slot of the \<^verbatim>\<open>interface{}\<close> version and a slot of the generic version hold
  the same thing: both unset, or both set to the same boolean (string).
\<close>

definition sameBool :: "EnumConfigValue \<Rightarrow> bool EnumConfigValue_g \<Rightarrow> bool" where
  "sameBool v w = (Valid v = Valid_g w \<and> (Valid v \<longrightarrow> Value v = IBool (Value_g w)))"

definition sameString :: "EnumConfigValue \<Rightarrow> string EnumConfigValue_g \<Rightarrow> bool" where
  "sameString v w = (Valid v = Valid_g w \<and> (Valid v \<longrightarrow> Value v = IString (Value_g w)))"

definition sameConfig :: "EnumConfig \<Rightarrow> EnumConfig_g \<Rightarrow> bool" where
  "sameConfig ec eg =
     (sameBool (NoPrefix ec) (NoPrefix_g eg) \<and>
      sameBool (NoIota ec) (NoIota_g eg) \<and>
      sameBool (LowercaseLookup ec) (LowercaseLookup_g eg) \<and>
      sameBool (CaseInsensitive ec) (CaseInsensitive_g eg) \<and>
      sameBool (Marshal ec) (Marshal_g eg) \<and> sameBool (SQL ec) (SQL_g eg) \<and>
      sameBool (SQLInt ec) (SQLInt_g eg) \<and> sameBool (Flag ec) (Flag_g eg) \<and>
      sameBool (Names ec) (Names_g eg) \<and> sameBool (Values ec) (Values_g eg) \<and>
      sameBool (LeaveSnakeCase ec) (LeaveSnakeCase_g eg) \<and>
      sameBool (Ptr ec) (Ptr_g eg) \<and>
      sameBool (SQLNullInt ec) (SQLNullInt_g eg) \<and>
      sameBool (SQLNullStr ec) (SQLNullStr_g eg) \<and>
      sameBool (MustParse ec) (MustParse_g eg) \<and>
      sameBool (ForceLower ec) (ForceLower_g eg) \<and>
      sameBool (ForceUpper ec) (ForceUpper_g eg) \<and>
      sameBool (NoComments ec) (NoComments_g eg) \<and>
      sameBool (NoParse ec) (NoParse_g eg) \<and> sameString (Prefix ec) (Prefix_g eg))"

text \<open>The keys of the boolean options, in the order of the \<^verbatim>\<open>switch\<close> of \<^verbatim>\<open>setBoolOption\<close>.\<close>

definition boolKeys :: "string list" where
  "boolKeys = [''noprefix'', ''noiota'', ''lower'', ''nocase'', ''marshal'', ''sql'', ''sqlint'',
     ''flag'', ''names'', ''values'', ''nocamel'', ''ptr'', ''sqlnullint'', ''sqlnullstr'',
     ''mustparse'', ''forcelower'', ''forceupper'', ''nocomments'', ''noparse'']"

section \<open>Facts about the library functions\<close>

lemma Index_single_in:
  "x \<in> set b \<Longrightarrow> Index b [x] = Some (length (takeWhile (\<lambda>y. y \<noteq> x) b))"
  by (induction b) auto

lemma Index_single_notin: "x \<notin> set b \<Longrightarrow> Index b [x] = None"
  by (induction b) auto

lemma Contains_single: "Contains b [x] = (x \<in> set b)"
  by (cases "x \<in> set b") (simp_all add: Contains_def Index_single_in Index_single_notin)

lemma SplitN_single:
  assumes "x \<in> set b"
  shows "SplitN b [x] 2 = [beforeFirst x b, afterFirst x b]"
proof -
  have "drop (length (takeWhile (\<lambda>y. y \<noteq> x) b) + 1) b = drop 1 (dropWhile (\<lambda>y. y \<noteq> x) b)"
    by (simp only: dropWhile_eq_drop [of "\<lambda>y. y \<noteq> x" b] drop_drop add.commute)
  moreover have "take (length (takeWhile (\<lambda>y. y \<noteq> x) b)) b = takeWhile (\<lambda>y. y \<noteq> x) b"
    by (rule takeWhile_eq_take [symmetric])
  ultimately show ?thesis
    using assms by (simp add: numeral_2_eq_2 Index_single_in beforeFirst_def afterFirst_def)
qed

section \<open>Facts about the option setters\<close>

lemma setBoolOption_unknown:
  "k \<notin> set boolKeys \<Longrightarrow> setBoolOption k v c = (Some (UnknownAnnotation k), c)"
  by (simp add: setBoolOption_def boolKeys_def)

lemma setBoolOption_g_unknown:
  "k \<notin> set boolKeys \<Longrightarrow> setBoolOption_g k v c = (Some (UnknownAnnotation k), c)"
  by (simp add: setBoolOption_g_def boolKeys_def)

lemma setBoolOption_known:
  "setBoolOption ''noprefix'' v c = (None, c\<lparr>NoPrefix := \<lparr>Value = IBool v, Valid = True\<rparr>\<rparr>)"
  "setBoolOption ''noiota'' v c = (None, c\<lparr>NoIota := \<lparr>Value = IBool v, Valid = True\<rparr>\<rparr>)"
  "setBoolOption ''lower'' v c = (None, c\<lparr>LowercaseLookup := \<lparr>Value = IBool v, Valid = True\<rparr>\<rparr>)"
  "setBoolOption ''nocase'' v c =
     (None, if v then c\<lparr>CaseInsensitive := \<lparr>Value = IBool v, Valid = True\<rparr>,
                        LowercaseLookup := \<lparr>Value = IBool True, Valid = True\<rparr>\<rparr>
            else c\<lparr>CaseInsensitive := \<lparr>Value = IBool v, Valid = True\<rparr>\<rparr>)"
  "setBoolOption ''marshal'' v c = (None, c\<lparr>Marshal := \<lparr>Value = IBool v, Valid = True\<rparr>\<rparr>)"
  "setBoolOption ''sql'' v c = (None, c\<lparr>SQL := \<lparr>Value = IBool v, Valid = True\<rparr>\<rparr>)"
  "setBoolOption ''sqlint'' v c = (None, c\<lparr>SQLInt := \<lparr>Value = IBool v, Valid = True\<rparr>\<rparr>)"
  "setBoolOption ''flag'' v c = (None, c\<lparr>Flag := \<lparr>Value = IBool v, Valid = True\<rparr>\<rparr>)"
  "setBoolOption ''names'' v c = (None, c\<lparr>Names := \<lparr>Value = IBool v, Valid = True\<rparr>\<rparr>)"
  "setBoolOption ''values'' v c = (None, c\<lparr>Values := \<lparr>Value = IBool v, Valid = True\<rparr>\<rparr>)"
  "setBoolOption ''nocamel'' v c = (None, c\<lparr>LeaveSnakeCase := \<lparr>Value = IBool v, Valid = True\<rparr>\<rparr>)"
  "setBoolOption ''ptr'' v c = (None, c\<lparr>Ptr := \<lparr>Value = IBool v, Valid = True\<rparr>\<rparr>)"
  "setBoolOption ''sqlnullint'' v c = (None, c\<lparr>SQLNullInt := \<lparr>Value = IBool v, Valid = True\<rparr>\<rparr>)"
  "setBoolOption ''sqlnullstr'' v c = (None, c\<lparr>SQLNullStr := \<lparr>Value = IBool v, Valid = True\<rparr>\<rparr>)"
  "setBoolOption ''mustparse'' v c = (None, c\<lparr>MustParse := \<lparr>Value = IBool v, Valid = True\<rparr>\<rparr>)"
  "setBoolOption ''forcelower'' v c = (None, c\<lparr>ForceLower := \<lparr>Value = IBool v, Valid = True\<rparr>\<rparr>)"
  "setBoolOption ''forceupper'' v c = (None, c\<lparr>ForceUpper := \<lparr>Value = IBool v, Valid = True\<rparr>\<rparr>)"
  "setBoolOption ''nocomments'' v c = (None, c\<lparr>NoComments := \<lparr>Value = IBool v, Valid = True\<rparr>\<rparr>)"
  "setBoolOption ''noparse'' v c = (None, c\<lparr>NoParse := \<lparr>Value = IBool v, Valid = True\<rparr>\<rparr>)"
  by (simp_all add: setBoolOption_def Let_def)

lemma setBoolOption_g_known:
  "setBoolOption_g ''noprefix'' v c = (None, c\<lparr>NoPrefix_g := \<lparr>Value_g = v, Valid_g = True\<rparr>\<rparr>)"
  "setBoolOption_g ''noiota'' v c = (None, c\<lparr>NoIota_g := \<lparr>Value_g = v, Valid_g = True\<rparr>\<rparr>)"
  "setBoolOption_g ''lower'' v c = (None, c\<lparr>LowercaseLookup_g := \<lparr>Value_g = v, Valid_g = True\<rparr>\<rparr>)"
  "setBoolOption_g ''nocase'' v c =
     (None, if v then c\<lparr>CaseInsensitive_g := \<lparr>Value_g = v, Valid_g = True\<rparr>,
                        LowercaseLookup_g := \<lparr>Value_g = True, Valid_g = True\<rparr>\<rparr>
            else c\<lparr>CaseInsensitive_g := \<lparr>Value_g = v, Valid_g = True\<rparr>\<rparr>)"
  "setBoolOption_g ''marshal'' v c = (None, c\<lparr>Marshal_g := \<lparr>Value_g = v, Valid_g = True\<rparr>\<rparr>)"
  "setBoolOption_g ''sql'' v c = (None, c\<lparr>SQL_g := \<lparr>Value_g = v, Valid_g = True\<rparr>\<rparr>)"
  "setBoolOption_g ''sqlint'' v c = (None, c\<lparr>SQLInt_g := \<lparr>Value_g = v, Valid_g = True\<rparr>\<rparr>)"
  "setBoolOption_g ''flag'' v c = (None, c\<lparr>Flag_g := \<lparr>Value_g = v, Valid_g = True\<rparr>\<rparr>)"
  "setBoolOption_g ''names'' v c = (None, c\<lparr>Names_g := \<lparr>Value_g = v, Valid_g = True\<rparr>\<rparr>)"
  "setBoolOption_g ''values'' v c = (None, c\<lparr>Values_g := \<lparr>Value_g = v, Valid_g = True\<rparr>\<rparr>)"
  "setBoolOption_g ''nocamel'' v c = (None, c\<lparr>LeaveSnakeCase_g := \<lparr>Value_g = v, Valid_g = True\<rparr>\<rparr>)"
  "setBoolOption_g ''ptr'' v c = (None, c\<lparr>Ptr_g := \<lparr>Value_g = v, Valid_g = True\<rparr>\<rparr>)"
  "setBoolOption_g ''sqlnullint'' v c = (None, c\<lparr>SQLNullInt_g := \<lparr>Value_g = v, Valid_g = True\<rparr>\<rparr>)"
  "setBoolOption_g ''sqlnullstr'' v c = (None, c\<lparr>SQLNullStr_g := \<lparr>Value_g = v, Valid_g = True\<rparr>\<rparr>)"
  "setBoolOption_g ''mustparse'' v c = (None, c\<lparr>MustParse_g := \<lparr>Value_g = v, Valid_g = True\<rparr>\<rparr>)"
  "setBoolOption_g ''forcelower'' v c = (None, c\<lparr>ForceLower_g := \<lparr>Value_g = v, Valid_g = True\<rparr>\<rparr>)"
  "setBoolOption_g ''forceupper'' v c = (None, c\<lparr>ForceUpper_g := \<lparr>Value_g = v, Valid_g = True\<rparr>\<rparr>)"
  "setBoolOption_g ''nocomments'' v c = (None, c\<lparr>NoComments_g := \<lparr>Value_g = v, Valid_g = True\<rparr>\<rparr>)"
  "setBoolOption_g ''noparse'' v c = (None, c\<lparr>NoParse_g := \<lparr>Value_g = v, Valid_g = True\<rparr>\<rparr>)"
  by (simp_all add: setBoolOption_g_def Let_def)

lemma boolKeys_cases:
  assumes "k \<in> set boolKeys"
  shows "k = ''noprefix''
    \<or> k = ''noiota''
    \<or> k = ''lower''
    \<or> k = ''nocase''
    \<or> k = ''marshal''
    \<or> k = ''sql''
    \<or> k = ''sqlint''
    \<or> k = ''flag''
    \<or> k = ''names''
    \<or> k = ''values''
    \<or> k = ''nocamel''
    \<or> k = ''ptr''
    \<or> k = ''sqlnullint''
    \<or> k = ''sqlnullstr''
    \<or> k = ''mustparse''
    \<or> k = ''forcelower''
    \<or> k = ''forceupper''
    \<or> k = ''nocomments''
    \<or> k = ''noparse''"
  using assms by (simp only: boolKeys_def list.set insert_iff empty_iff simp_thms)

lemma setBoolOption_idem:
  "setBoolOption k v (snd (setBoolOption k v c)) = setBoolOption k v c"
proof (cases "k \<in> set boolKeys")
  case True
  from boolKeys_cases [OF this] show ?thesis
    by - (elim disjE, simp_all only: setBoolOption_known snd_conv, simp_all)
next
  case False
  then show ?thesis by (simp add: setBoolOption_unknown)
qed

lemma setStringOption_idem:
  "setStringOption k v (snd (setStringOption k v c)) = setStringOption k v c"
  by (simp add: setStringOption_def)

lemma setBoolOption_error:
  assumes "fst (setBoolOption k v c) \<noteq> None"
  shows "snd (setBoolOption k v c) = c"
proof (cases "k \<in> set boolKeys")
  case True
  from boolKeys_cases [OF this] show ?thesis
    using assms
    by - (elim disjE, simp_all only: setBoolOption_known snd_conv fst_conv, simp_all)
next
  case False
  then show ?thesis using assms by (simp add: setBoolOption_unknown)
qed

lemma setStringOption_error:
  "fst (setStringOption k v c) \<noteq> None \<Longrightarrow> snd (setStringOption k v c) = c"
  by (cases "k = ''prefix''") (simp_all add: setStringOption_def)

lemma setBoolOption_last:
  assumes "k \<noteq> ''nocase''"
  shows "setBoolOption k v2 (snd (setBoolOption k v1 c)) = setBoolOption k v2 c"
proof (cases "k \<in> set boolKeys")
  case True
  from boolKeys_cases [OF this] show ?thesis
    using assms by - (elim disjE, simp_all only: setBoolOption_known snd_conv, simp_all)
next
  case False
  then show ?thesis using assms by (simp add: setBoolOption_unknown)
qed

lemma setBoolOption_nocase_last:
  "CaseInsensitive (snd (setBoolOption ''nocase'' v2 (snd (setBoolOption ''nocase'' v1 c))))
     = CaseInsensitive (snd (setBoolOption ''nocase'' v2 c))"
  by (simp add: setBoolOption_known)

lemma setStringOption_last:
  "setStringOption k v2 (snd (setStringOption k v1 c)) = setStringOption k v2 c"
  by (simp add: setStringOption_def)

lemma setBoolOption_inv:
  assumes "nocaseImpliesLower c" and "\<not> (k = ''lower'' \<and> \<not> v)"
  shows "nocaseImpliesLower (snd (setBoolOption k v c))"
proof (cases "k \<in> set boolKeys")
  case True
  from boolKeys_cases [OF this] show ?thesis
    using assms
    by - (elim disjE, simp_all only: setBoolOption_known snd_conv,
        simp_all add: nocaseImpliesLower_def setTo_def)
next
  case False
  then show ?thesis using assms by (simp add: setBoolOption_unknown)
qed

lemma setStringOption_inv:
  "nocaseImpliesLower c \<Longrightarrow> nocaseImpliesLower (snd (setStringOption k v c))"
  by (simp add: setStringOption_def nocaseImpliesLower_def setTo_def)

lemma setBoolOption_fresh:
  assumes "fst (setBoolOption k v NewEnumConfig) = None"
  shows "(validCount (snd (setBoolOption k v NewEnumConfig)) = 1
    \<or> (v \<and> snd (setBoolOption k v NewEnumConfig) =
          NewEnumConfig\<lparr>CaseInsensitive := \<lparr>Value = IBool True, Valid = True\<rparr>,
                         LowercaseLookup := \<lparr>Value = IBool True, Valid = True\<rparr>\<rparr>
        \<and> validCount (snd (setBoolOption k v NewEnumConfig)) = 2))
     \<and> (\<forall>x \<in> set (slots (snd (setBoolOption k v NewEnumConfig))).
           x = zeroValue \<or> x = \<lparr>Value = IBool v, Valid = True\<rparr>)"
proof (cases "k \<in> set boolKeys")
  case True
  from boolKeys_cases [OF this] show ?thesis
    using assms
    by - (elim disjE, simp_all only: setBoolOption_known snd_conv fst_conv,
        simp_all add: NewEnumConfig_def zeroValue_def validCount_def slots_def)
next
  case False
  then show ?thesis using assms by (simp add: setBoolOption_unknown)
qed

lemma setStringOption_fresh:
  "fst (setStringOption k v NewEnumConfig) = None \<Longrightarrow>
   validCount (snd (setStringOption k v NewEnumConfig)) = 1
   \<and> (\<forall>x \<in> set (slots (snd (setStringOption k v NewEnumConfig))).
         x = zeroValue \<or> x = \<lparr>Value = IString v, Valid = True\<rparr>)"
  by (cases "k = ''prefix''")
    (simp_all add: setStringOption_def NewEnumConfig_def zeroValue_def validCount_def slots_def)

lemma setBoolOption_same:
  assumes "sameConfig c g"
  shows "fst (setBoolOption k v c) = fst (setBoolOption_g k v g)
     \<and> sameConfig (snd (setBoolOption k v c)) (snd (setBoolOption_g k v g))"
proof (cases "k \<in> set boolKeys")
  case True
  from boolKeys_cases [OF this] show ?thesis
    using assms
    by - (elim disjE,
        simp_all only: setBoolOption_known setBoolOption_g_known snd_conv fst_conv,
        simp_all add: sameConfig_def sameBool_def sameString_def)
next
  case False
  then show ?thesis using assms by (simp add: setBoolOption_unknown setBoolOption_g_unknown)
qed

lemma setStringOption_same:
  "sameConfig c g \<Longrightarrow> fst (setStringOption k v c) = fst (setStringOption_g k v g)
     \<and> sameConfig (snd (setStringOption k v c)) (snd (setStringOption_g k v g))"
  by (simp add: setStringOption_def setStringOption_g_def sameConfig_def sameBool_def
      sameString_def)

section \<open>Facts about the annotation parser\<close>

lemma ParseAnnotation_empty: "TrimSpace s = [] \<Longrightarrow> ParseAnnotation s c = (None, c)"
  by (simp add: ParseAnnotation_def)

lemma ParseAnnotation_no_marker:
  "TrimSpace s = a # body \<Longrightarrow> a \<noteq> CHR ''@'' \<Longrightarrow>
   ParseAnnotation s c = (Some (MustStartWithAt (a # body)), c)"
  by (simp add: ParseAnnotation_def HasPrefix_def)

lemma ParseAnnotation_body:
  assumes "TrimSpace s = CHR ''@'' # body"
  shows "ParseAnnotation s c =
     (if CHR '':'' \<in> set body then
        (let key = TrimSpace (beforeFirst CHR '':'' body);
             val = TrimSpace (afterFirst CHR '':'' body)
         in if val = ''true'' then setBoolOption key True c
            else if val = ''false'' then setBoolOption key False c
            else setStringOption key (stripQuotes val) c)
      else if CHR ''='' \<in> set body then
        setStringOption (TrimSpace (beforeFirst CHR ''='' body))
          (stripQuotes (TrimSpace (afterFirst CHR ''='' body))) c
      else setBoolOption body True c)"
  using assms
  by (simp add: ParseAnnotation_def Let_def HasPrefix_def Contains_single SplitN_single
      ParseBool_def)

lemma ParseAnnotation_g_body:
  assumes "TrimSpace s = CHR ''@'' # body"
  shows "ParseAnnotation_g s c =
     (if CHR '':'' \<in> set body then
        (let key = TrimSpace (beforeFirst CHR '':'' body);
             val = TrimSpace (afterFirst CHR '':'' body)
         in if val = ''true'' then setBoolOption_g key True c
            else if val = ''false'' then setBoolOption_g key False c
            else setStringOption_g key (stripQuotes val) c)
      else if CHR ''='' \<in> set body then
        setStringOption_g (TrimSpace (beforeFirst CHR ''='' body))
          (stripQuotes (TrimSpace (afterFirst CHR ''='' body))) c
      else setBoolOption_g body True c)"
  using assms
  by (simp add: ParseAnnotation_g_def Let_def HasPrefix_def Contains_single SplitN_single
      ParseBool_def)

text \<open>
  What a directive does to the configuration depends on the directive alone: nothing,
  an error, one call of the boolean setter or one call of the string setter.
\<close>

lemma ParseAnnotation_shape:
  "(\<forall>c. ParseAnnotation s c = (None, c))
   \<or> (\<exists>e. \<forall>c. ParseAnnotation s c = (Some e, c))
   \<or> (\<exists>k v. \<forall>c. ParseAnnotation s c = setBoolOption k v c)
   \<or> (\<exists>k v. \<forall>c. ParseAnnotation s c = setStringOption k v c)"
proof (cases "TrimSpace s")
  case Nil
  then show ?thesis by (simp add: ParseAnnotation_empty)
next
  case (Cons a body)
  show ?thesis
  proof (cases "a = CHR ''@''")
    case True
    with Cons have "TrimSpace s = CHR ''@'' # body" by simp
    from ParseAnnotation_body [OF this] show ?thesis
      by (auto simp: Let_def)
  next
    case False
    with Cons show ?thesis by (simp add: ParseAnnotation_no_marker)
  qed
qed

text \<open>The errors a call can return.\<close>

lemma setBoolOption_fst:
  "fst (setBoolOption k v c) = None \<or> fst (setBoolOption k v c) = Some (UnknownAnnotation k)"
proof (cases "k \<in> set boolKeys")
  case True
  from boolKeys_cases [OF this] show ?thesis
    by - (elim disjE, simp_all only: setBoolOption_known fst_conv, simp_all)
next
  case False
  then show ?thesis by (simp add: setBoolOption_unknown)
qed

lemma setStringOption_fst:
  "fst (setStringOption k v c) = None
   \<or> fst (setStringOption k v c) = Some (UnknownAnnotationWithValue k v)"
  by (cases "k = ''prefix''") (simp_all add: setStringOption_def)

lemma ParseAnnotation_fst:
  "fst (ParseAnnotation s c) = None
   \<or> (\<exists>a. fst (ParseAnnotation s c) = Some (MustStartWithAt a))
   \<or> (\<exists>k. fst (ParseAnnotation s c) = Some (UnknownAnnotation k))
   \<or> (\<exists>k v. fst (ParseAnnotation s c) = Some (UnknownAnnotationWithValue k v))"
proof (cases "TrimSpace s")
  case Nil
  then show ?thesis by (simp add: ParseAnnotation_empty)
next
  case (Cons a body)
  show ?thesis
  proof (cases "a = CHR ''@''")
    case True
    with Cons have "TrimSpace s = CHR ''@'' # body" by simp
    from ParseAnnotation_body [OF this, of c] show ?thesis
      using setBoolOption_fst [of _ _ c] setStringOption_fst [of _ _ c]
      by (simp add: Let_def split: if_splits) metis+
  next
    case False
    with Cons show ?thesis by (simp add: ParseAnnotation_no_marker)
  qed
qed

text \<open>The equations that evaluate the parser on a given directive.\<close>

lemmas eval_simps = ParseAnnotation_def TrimSpace_def TrimRight_def HasPrefix_def Contains_def
  asciiSpace_def isSpace2_def isSpace3_def numeral_2_eq_2 ParseBool_def stripQuotes_def Let_def

section \<open>Facts about sequences of directives\<close>

text \<open>
  The implication "\<^verbatim>\<open>nocase\<close> set true implies \<^verbatim>\<open>lower\<close> set true" is kept by every
  directive except one that sets \<^verbatim>\<open>lower\<close> to false.
\<close>

lemma ParseAnnotation_inv:
  assumes "nocaseImpliesLower c" and "\<not> setsLowerFalse d"
  shows "nocaseImpliesLower (snd (ParseAnnotation d c))"
proof -
  consider (noop) "\<forall>c. ParseAnnotation d c = (None, c)"
    | (err) e where "\<forall>c. ParseAnnotation d c = (Some e, c)"
    | (bool) k v where "\<forall>c. ParseAnnotation d c = setBoolOption k v c"
    | (str) k v where "\<forall>c. ParseAnnotation d c = setStringOption k v c"
    using ParseAnnotation_shape [of d] by blast
  then show ?thesis
  proof cases
    case noop
    then show ?thesis using assms(1) by simp
  next
    case err
    then show ?thesis using assms(1) by simp
  next
    case bool
    have "\<not> (k = ''lower'' \<and> \<not> v)"
    proof
      assume "k = ''lower'' \<and> \<not> v"
      then have "ParseAnnotation d NewEnumConfig = setBoolOption ''lower'' False NewEnumConfig"
        using bool by simp
      then have "setsLowerFalse d"
        by (simp add: setsLowerFalse_def setBoolOption_known)
      with assms(2) show False by simp
    qed
    from setBoolOption_inv [OF assms(1) this] bool show ?thesis by simp
  next
    case str
    then show ?thesis using setStringOption_inv [OF assms(1)] by simp
  qed
qed

lemma NewEnumConfig_inv: "nocaseImpliesLower NewEnumConfig"
  by (simp add: nocaseImpliesLower_def setTo_def NewEnumConfig_def zeroValue_def)

text \<open>
  The two versions of the configuration core keep their configurations the same, slot
  by slot, from the fresh configuration on.
\<close>

lemma NewEnumConfig_same: "sameConfig NewEnumConfig NewEnumConfig_g"
  by (simp add: sameConfig_def sameBool_def sameString_def NewEnumConfig_def zeroValue_def
      NewEnumConfig_g_def zeroBool_g_def zeroString_g_def)

lemma ParseAnnotation_same:
  assumes "sameConfig c g"
  shows "fst (ParseAnnotation s c) = fst (ParseAnnotation_g s g)
     \<and> sameConfig (snd (ParseAnnotation s c)) (snd (ParseAnnotation_g s g))"
proof (cases "TrimSpace s")
  case Nil
  then show ?thesis using assms by (simp add: ParseAnnotation_def ParseAnnotation_g_def)
next
  case (Cons a body)
  show ?thesis
  proof (cases "a = CHR ''@''")
    case True
    with Cons have t: "TrimSpace s = CHR ''@'' # body" by simp
    show ?thesis
      unfolding ParseAnnotation_body [OF t] ParseAnnotation_g_body [OF t]
      using setBoolOption_same [OF assms] setStringOption_same [OF assms]
      by (simp add: Let_def)
  next
    case False
    with Cons show ?thesis using assms
      by (simp add: ParseAnnotation_def ParseAnnotation_g_def HasPrefix_def)
  qed
qed

lemma applyAll_same:
  "sameConfig c g \<Longrightarrow>
   fst (applyAll ds c) = fst (applyAll_g ds g)
   \<and> sameConfig (snd (applyAll ds c)) (snd (applyAll_g ds g))"
proof (induction ds arbitrary: c g)
  case Nil
  then show ?case by simp
next
  case (Cons d ds)
  from ParseAnnotation_same [OF Cons.prems, of d]
  have e: "fst (ParseAnnotation d c) = fst (ParseAnnotation_g d g)"
    and s: "sameConfig (snd (ParseAnnotation d c)) (snd (ParseAnnotation_g d g))"
    by simp_all
  from Cons.IH [OF s] e show ?case by (simp add: Let_def)
qed

lemma sameBool_GetBool: "sameBool v w \<Longrightarrow> GetBool v d = GetBool_g w d"
  by (auto simp: sameBool_def GetBool_def GetBool_g_def)

lemma sameString_GetString: "sameString v w \<Longrightarrow> GetString v t = GetString_g w t"
  by (auto simp: sameString_def GetString_def GetString_g_def)

text \<open>
  Setting an option twice, directives of the form \<^verbatim>\<open>@key:true\<close>, and what a
  directive that sets \<^verbatim>\<open>lower\<close> to false does to the implication.
\<close>

lemma setBoolOption_twice:
  "setBoolOption ''noprefix'' v2 (snd (setBoolOption ''noprefix'' v1 c))
     = (None, c\<lparr>NoPrefix := \<lparr>Value = IBool v2, Valid = True\<rparr>\<rparr>)"
  "setBoolOption ''noiota'' v2 (snd (setBoolOption ''noiota'' v1 c))
     = (None, c\<lparr>NoIota := \<lparr>Value = IBool v2, Valid = True\<rparr>\<rparr>)"
  "setBoolOption ''lower'' v2 (snd (setBoolOption ''lower'' v1 c))
     = (None, c\<lparr>LowercaseLookup := \<lparr>Value = IBool v2, Valid = True\<rparr>\<rparr>)"
  "setBoolOption ''marshal'' v2 (snd (setBoolOption ''marshal'' v1 c))
     = (None, c\<lparr>Marshal := \<lparr>Value = IBool v2, Valid = True\<rparr>\<rparr>)"
  "setBoolOption ''sql'' v2 (snd (setBoolOption ''sql'' v1 c))
     = (None, c\<lparr>SQL := \<lparr>Value = IBool v2, Valid = True\<rparr>\<rparr>)"
  "setBoolOption ''sqlint'' v2 (snd (setBoolOption ''sqlint'' v1 c))
     = (None, c\<lparr>SQLInt := \<lparr>Value = IBool v2, Valid = True\<rparr>\<rparr>)"
  "setBoolOption ''flag'' v2 (snd (setBoolOption ''flag'' v1 c))
     = (None, c\<lparr>Flag := \<lparr>Value = IBool v2, Valid = True\<rparr>\<rparr>)"
  "setBoolOption ''names'' v2 (snd (setBoolOption ''names'' v1 c))
     = (None, c\<lparr>Names := \<lparr>Value = IBool v2, Valid = True\<rparr>\<rparr>)"
  "setBoolOption ''values'' v2 (snd (setBoolOption ''values'' v1 c))
     = (None, c\<lparr>Values := \<lparr>Value = IBool v2, Valid = True\<rparr>\<rparr>)"
  "setBoolOption ''nocamel'' v2 (snd (setBoolOption ''nocamel'' v1 c))
     = (None, c\<lparr>LeaveSnakeCase := \<lparr>Value = IBool v2, Valid = True\<rparr>\<rparr>)"
  "setBoolOption ''ptr'' v2 (snd (setBoolOption ''ptr'' v1 c))
     = (None, c\<lparr>Ptr := \<lparr>Value = IBool v2, Valid = True\<rparr>\<rparr>)"
  "setBoolOption ''sqlnullint'' v2 (snd (setBoolOption ''sqlnullint'' v1 c))
     = (None, c\<lparr>SQLNullInt := \<lparr>Value = IBool v2, Valid = True\<rparr>\<rparr>)"
  "setBoolOption ''sqlnullstr'' v2 (snd (setBoolOption ''sqlnullstr'' v1 c))
     = (None, c\<lparr>SQLNullStr := \<lparr>Value = IBool v2, Valid = True\<rparr>\<rparr>)"
  "setBoolOption ''mustparse'' v2 (snd (setBoolOption ''mustparse'' v1 c))
     = (None, c\<lparr>MustParse := \<lparr>Value = IBool v2, Valid = True\<rparr>\<rparr>)"
  "setBoolOption ''forcelower'' v2 (snd (setBoolOption ''forcelower'' v1 c))
     = (None, c\<lparr>ForceLower := \<lparr>Value = IBool v2, Valid = True\<rparr>\<rparr>)"
  "setBoolOption ''forceupper'' v2 (snd (setBoolOption ''forceupper'' v1 c))
     = (None, c\<lparr>ForceUpper := \<lparr>Value = IBool v2, Valid = True\<rparr>\<rparr>)"
  "setBoolOption ''nocomments'' v2 (snd (setBoolOption ''nocomments'' v1 c))
     = (None, c\<lparr>NoComments := \<lparr>Value = IBool v2, Valid = True\<rparr>\<rparr>)"
  "setBoolOption ''noparse'' v2 (snd (setBoolOption ''noparse'' v1 c))
     = (None, c\<lparr>NoParse := \<lparr>Value = IBool v2, Valid = True\<rparr>\<rparr>)"
  "setBoolOption ''nocase'' True (snd (setBoolOption ''nocase'' v1 c))
     = (None, c\<lparr>CaseInsensitive := \<lparr>Value = IBool True, Valid = True\<rparr>,
              LowercaseLookup := \<lparr>Value = IBool True, Valid = True\<rparr>\<rparr>)"
  "setBoolOption ''nocase'' False (snd (setBoolOption ''nocase'' True c))
     = (None, c\<lparr>CaseInsensitive := \<lparr>Value = IBool False, Valid = True\<rparr>,
              LowercaseLookup := \<lparr>Value = IBool True, Valid = True\<rparr>\<rparr>)"
  "setBoolOption ''nocase'' False (snd (setBoolOption ''nocase'' False c))
     = (None, c\<lparr>CaseInsensitive := \<lparr>Value = IBool False, Valid = True\<rparr>\<rparr>)"
  by (simp_all add: setBoolOption_known)

lemma setStringOption_twice:
  "setStringOption ''prefix'' s2 (snd (setStringOption ''prefix'' s1 c))
     = (None, c\<lparr>Prefix := \<lparr>Value = IString s2, Valid = True\<rparr>\<rparr>)"
  by (simp add: setStringOption_def)

lemma setBoolOption_accepts: "k \<in> set boolKeys \<Longrightarrow> fst (setBoolOption k v c) = None"
  by (drule boolKeys_cases, elim disjE) (simp_all only: setBoolOption_known fst_conv)

lemma TrimLeft_marker: "TrimLeft (CHR ''@'' # xs) = CHR ''@'' # xs"
proof (cases xs)
  case Nil
  then show ?thesis by (simp add: asciiSpace_def)
next
  case (Cons b ys)
  then show ?thesis
    by (cases ys) (simp_all add: asciiSpace_def isSpace2_def isSpace3_def)
qed

lemma TrimRightRev_e: "TrimRightRev (CHR ''e'' # xs) = CHR ''e'' # xs"
proof (cases xs)
  case Nil
  then show ?thesis by (simp add: asciiSpace_def)
next
  case (Cons b ys)
  then show ?thesis
    by (cases ys) (simp_all add: asciiSpace_def isSpace2_def isSpace3_def)
qed

lemma TrimRight_e: "TrimRight (xs @ ''e'') = xs @ ''e''"
  by (simp add: TrimRight_def TrimRightRev_e del: TrimRightRev.simps)

lemma boolDirective_e:
  "boolDirective k v = (CHR ''@'' # k @ (if v then '':tru'' else '':fals'')) @ ''e''"
  by (simp add: boolDirective_def boolText_def)

lemma TrimSpace_boolDirective: "TrimSpace (boolDirective k v) = boolDirective k v"
  unfolding boolDirective_e TrimSpace_def
  by (simp only: append_Cons TrimLeft_marker) (simp only: append_Cons [symmetric] TrimRight_e)

lemma TrimSpace_boolText: "TrimSpace (boolText v) = boolText v"
  by (cases v) (simp_all add: boolText_def eval_simps)

lemma ParseAnnotation_boolDirective:
  assumes "CHR '':'' \<notin> set k" and "TrimSpace k = k"
  shows "ParseAnnotation (boolDirective k v) c = setBoolOption k v c"
proof -
  have t: "TrimSpace (boolDirective k v) = CHR ''@'' # (k @ '':'' @ boolText v)"
    by (simp only: TrimSpace_boolDirective) (simp add: boolDirective_def)
  have n: "\<And>x. x \<in> set k \<Longrightarrow> x \<noteq> CHR '':''"
    using assms(1) by auto
  have b: "beforeFirst CHR '':'' (k @ '':'' @ boolText v) = k"
    using n by (simp add: beforeFirst_def takeWhile_append2)
  have a: "afterFirst CHR '':'' (k @ '':'' @ boolText v) = boolText v"
    using n by (simp add: afterFirst_def dropWhile_append2)
  have m: "CHR '':'' \<in> set (k @ '':'' @ boolText v)" by simp
  show ?thesis
    unfolding ParseAnnotation_body [OF t] a b assms(2) TrimSpace_boolText
    using m by (cases v) (simp_all add: boolText_def)
qed

lemma boolKeys_plain: "k \<in> set boolKeys \<Longrightarrow> CHR '':'' \<notin> set k \<and> TrimSpace k = k"
  by (drule boolKeys_cases, elim disjE) (simp_all add: eval_simps)

lemma setBoolOption_lower_false:
  assumes "setBoolOption k v NewEnumConfig =
     (None, NewEnumConfig\<lparr>LowercaseLookup := \<lparr>Value = IBool False, Valid = True\<rparr>\<rparr>)"
  shows "k = ''lower'' \<and> \<not> v"
proof (cases "k \<in> set boolKeys")
  case True
  from boolKeys_cases [OF this] show ?thesis
    using assms
    by - (elim disjE, simp_all only: setBoolOption_known,
        simp_all add: NewEnumConfig_def zeroValue_def split: if_splits)
next
  case False
  then show ?thesis using assms by (simp add: setBoolOption_unknown)
qed

lemma setsLowerFalse_all:
  assumes "setsLowerFalse d"
  shows "ParseAnnotation d c =
     (None, c\<lparr>LowercaseLookup := \<lparr>Value = IBool False, Valid = True\<rparr>\<rparr>)"
proof -
  note a = assms [unfolded setsLowerFalse_def]
  consider (noop) "\<forall>c. ParseAnnotation d c = (None, c)"
    | (err) e where "\<forall>c. ParseAnnotation d c = (Some e, c)"
    | (bool) k v where "\<forall>c. ParseAnnotation d c = setBoolOption k v c"
    | (str) k v where "\<forall>c. ParseAnnotation d c = setStringOption k v c"
    using ParseAnnotation_shape [of d] by blast
  then show ?thesis
  proof cases
    case noop
    with a have "NewEnumConfig =
        NewEnumConfig\<lparr>LowercaseLookup := \<lparr>Value = IBool False, Valid = True\<rparr>\<rparr>"
      by simp
    then have False by (simp add: NewEnumConfig_def zeroValue_def)
    then show ?thesis ..
  next
    case err
    with a show ?thesis by simp
  next
    case bool
    with a have "setBoolOption k v NewEnumConfig =
        (None, NewEnumConfig\<lparr>LowercaseLookup := \<lparr>Value = IBool False, Valid = True\<rparr>\<rparr>)"
      by simp
    from setBoolOption_lower_false [OF this] bool show ?thesis
      by (simp add: setBoolOption_known)
  next
    case str
    with a have e: "setStringOption k v NewEnumConfig =
        (None, NewEnumConfig\<lparr>LowercaseLookup := \<lparr>Value = IBool False, Valid = True\<rparr>\<rparr>)"
      by simp
    have False
    proof (cases "k = ''prefix''")
      case True
      with e show False by (simp add: setStringOption_def NewEnumConfig_def zeroValue_def)
    next
      case False
      with e show False by (simp add: setStringOption_def)
    qed
    then show ?thesis ..
  qed
qed

lemma ParseAnnotation_inv_iff:
  assumes "nocaseImpliesLower c"
  shows "nocaseImpliesLower (snd (ParseAnnotation d c))
     \<longleftrightarrow> \<not> (setsLowerFalse d \<and> setTo (CaseInsensitive c) True)"
proof (cases "setsLowerFalse d")
  case True
  from setsLowerFalse_all [OF this, of c] True show ?thesis
    by (simp add: nocaseImpliesLower_def setTo_def)
next
  case False
  with ParseAnnotation_inv [OF assms this] show ?thesis by simp
qed

lemma applyAll_inv_state:
  "nocaseImpliesLower c \<Longrightarrow> \<not> lowerFalseAfterNocase ds c \<Longrightarrow>
   nocaseImpliesLower (snd (applyAll ds c))"
proof (induction ds arbitrary: c)
  case Nil
  then show ?case by simp
next
  case (Cons d ds)
  from Cons.prems have n: "\<not> (setsLowerFalse d \<and> setTo (CaseInsensitive c) True)"
    and r: "\<not> lowerFalseAfterNocase ds (snd (ParseAnnotation d c))"
    by simp_all
  from ParseAnnotation_inv_iff [OF Cons.prems(1), of d] n
  have "nocaseImpliesLower (snd (ParseAnnotation d c))" by simp
  from Cons.IH [OF this r] show ?case by (simp add: Let_def)
qed

lemma applyAll_inv_prefixes:
  "nocaseImpliesLower c \<Longrightarrow>
   (\<forall>n \<le> length ds. nocaseImpliesLower (snd (applyAll (take n ds) c)))
     \<longleftrightarrow> \<not> lowerFalseAfterNocase ds c"
proof (induction ds arbitrary: c)
  case Nil
  then show ?case by simp
next
  case (Cons d ds)
  let ?c = "snd (ParseAnnotation d c)"
  have step: "(\<forall>n \<le> length (d # ds). nocaseImpliesLower (snd (applyAll (take n (d # ds)) c)))
      \<longleftrightarrow> (\<forall>m \<le> length ds. nocaseImpliesLower (snd (applyAll (take m ds) ?c)))"
    (is "?L \<longleftrightarrow> ?R")
  proof
    assume l: ?L
    show ?R
    proof (intro allI impI)
      fix m assume "m \<le> length ds"
      then have "Suc m \<le> length (d # ds)" by simp
      with l have "nocaseImpliesLower (snd (applyAll (take (Suc m) (d # ds)) c))" by blast
      then show "nocaseImpliesLower (snd (applyAll (take m ds) ?c))" by (simp add: Let_def)
    qed
  next
    assume r: ?R
    show ?L
    proof (intro allI impI)
      fix n assume n: "n \<le> length (d # ds)"
      show "nocaseImpliesLower (snd (applyAll (take n (d # ds)) c))"
      proof (cases n)
        case 0
        then show ?thesis using Cons.prems by simp
      next
        case (Suc m)
        with n have "m \<le> length ds" by simp
        with r have "nocaseImpliesLower (snd (applyAll (take m ds) ?c))" by blast
        with Suc show ?thesis by (simp add: Let_def)
      qed
    qed
  qed
  show ?case
  proof (cases "setsLowerFalse d \<and> setTo (CaseInsensitive c) True")
    case True
    with ParseAnnotation_inv_iff [OF Cons.prems, of d]
    have "\<not> nocaseImpliesLower ?c" by simp
    then have "\<not> ?R" by (metis applyAll.simps(1) le0 snd_conv take_0)
    with step True show ?thesis by simp
  next
    case False
    with ParseAnnotation_inv_iff [OF Cons.prems, of d]
    have "nocaseImpliesLower ?c" by simp
    from Cons.IH [OF this] step False show ?thesis by simp
  qed
qed

section \<open>The claims\<close>

text \<open>
  Claim C1, as stated, fails for \<^verbatim>\<open>@nocase\<close>: the directive is accepted on a fresh
  configuration and two slots are set afterwards, \<open>CaseInsensitive\<close> and
  \<open>LowercaseLookup\<close>.
\<close>

theorem C1_nocase_sets_two_slots:
  "fst (ParseAnnotation ''@nocase'' NewEnumConfig) = None
   \<and> validCount (snd (ParseAnnotation ''@nocase'' NewEnumConfig)) = 2
   \<and> Valid (CaseInsensitive (snd (ParseAnnotation ''@nocase'' NewEnumConfig)))
   \<and> Valid (LowercaseLookup (snd (ParseAnnotation ''@nocase'' NewEnumConfig)))"
  by (simp add: eval_simps setBoolOption_known validCount_def slots_def NewEnumConfig_def
      zeroValue_def)

text \<open>
  Claim C1, amended. Let a directive be non-blank and accepted by \<^verbatim>\<open>ParseAnnotation\<close>
  on a fresh configuration, in any of the three forms. Then every slot is either
  untouched (the zero value, unset) or set, with the set flag true, to the value parsed
  from the directive; and exactly one slot is set, except when the directive is
  \<^verbatim>\<open>nocase\<close> with the value true, which sets two, \<open>CaseInsensitive\<close> and
  \<open>LowercaseLookup\<close>, both to true.
\<close>

theorem C1_fresh_directive:
  assumes "TrimSpace s \<noteq> []" and "fst (ParseAnnotation s NewEnumConfig) = None"
  shows "(validCount (snd (ParseAnnotation s NewEnumConfig)) = 1
          \<or> (parsedValue (drop 1 (TrimSpace s)) = IBool True
              \<and> snd (ParseAnnotation s NewEnumConfig) =
                  NewEnumConfig\<lparr>CaseInsensitive := \<lparr>Value = IBool True, Valid = True\<rparr>,
                                 LowercaseLookup := \<lparr>Value = IBool True, Valid = True\<rparr>\<rparr>
              \<and> validCount (snd (ParseAnnotation s NewEnumConfig)) = 2))
       \<and> (\<forall>x \<in> set (slots (snd (ParseAnnotation s NewEnumConfig))).
             x = zeroValue
             \<or> x = \<lparr>Value = parsedValue (drop 1 (TrimSpace s)), Valid = True\<rparr>)"
proof -
  obtain a body where ab: "TrimSpace s = a # body"
    using assms(1) by (cases "TrimSpace s") auto
  have "a = CHR ''@''"
    using assms(2) ParseAnnotation_no_marker [OF ab, of NewEnumConfig]
    by (cases "a = CHR ''@''") auto
  with ab have t: "TrimSpace s = CHR ''@'' # body" by simp
  note b = ParseAnnotation_body [OF t, of NewEnumConfig]
  have d: "drop 1 (TrimSpace s) = body" using t by simp
  show ?thesis
  proof (cases "CHR '':'' \<in> set body")
    case True
    define val where "val = TrimSpace (afterFirst CHR '':'' body)"
    define key where "key = TrimSpace (beforeFirst CHR '':'' body)"
    show ?thesis
    proof (cases "val = ''true''")
      case True
      have p: "ParseAnnotation s NewEnumConfig = setBoolOption key True NewEnumConfig"
        using b \<open>CHR '':'' \<in> set body\<close> True by (simp add: Let_def val_def key_def)
      have v: "parsedValue body = IBool True"
        using \<open>CHR '':'' \<in> set body\<close> True by (simp add: parsedValue_def Let_def val_def)
      from setBoolOption_fresh [of key True] assms(2) show ?thesis
        unfolding d v p by simp
    next
      case False
      note nt = this
      show ?thesis
      proof (cases "val = ''false''")
        case True
        have p: "ParseAnnotation s NewEnumConfig = setBoolOption key False NewEnumConfig"
          using b \<open>CHR '':'' \<in> set body\<close> True by (simp add: Let_def val_def key_def)
        have v: "parsedValue body = IBool False"
          using \<open>CHR '':'' \<in> set body\<close> True by (simp add: parsedValue_def Let_def val_def)
        from setBoolOption_fresh [of key False] assms(2) show ?thesis
          unfolding d v p by simp
      next
        case False
        have p: "ParseAnnotation s NewEnumConfig
                   = setStringOption key (stripQuotes val) NewEnumConfig"
          using b \<open>CHR '':'' \<in> set body\<close> False nt by (simp add: Let_def val_def key_def)
        have v: "parsedValue body = IString (stripQuotes val)"
          using \<open>CHR '':'' \<in> set body\<close> False nt by (simp add: parsedValue_def Let_def val_def)
        from setStringOption_fresh [of key "stripQuotes val"] assms(2) show ?thesis
          unfolding d v p by simp
      qed
    qed
  next
    case False
    note nc = this
    show ?thesis
    proof (cases "CHR ''='' \<in> set body")
      case True
      define val where "val = stripQuotes (TrimSpace (afterFirst CHR ''='' body))"
      define key where "key = TrimSpace (beforeFirst CHR ''='' body)"
      have p: "ParseAnnotation s NewEnumConfig = setStringOption key val NewEnumConfig"
        using b nc True by (simp add: val_def key_def)
      have v: "parsedValue body = IString val"
        using nc True by (simp add: parsedValue_def val_def)
      from setStringOption_fresh [of key val] assms(2) show ?thesis
        unfolding d v p by simp
    next
      case False
      have p: "ParseAnnotation s NewEnumConfig = setBoolOption body True NewEnumConfig"
        using b nc False by simp
      have v: "parsedValue body = IBool True"
        using nc False by (simp add: parsedValue_def)
      from setBoolOption_fresh [of body True] assms(2) show ?thesis
        unfolding d v p by simp
    qed
  qed
qed

theorem C1_fresh_directive_witness:
  "TrimSpace ''@marshal:false'' \<noteq> []
   \<and> fst (ParseAnnotation ''@marshal:false'' NewEnumConfig) = None
   \<and> validCount (snd (ParseAnnotation ''@marshal:false'' NewEnumConfig)) = 1
   \<and> parsedValue (drop 1 (TrimSpace ''@marshal:false'')) = IBool False
   \<and> Marshal (snd (ParseAnnotation ''@marshal:false'' NewEnumConfig))
       = \<lparr>Value = IBool False, Valid = True\<rparr>"
proof -
  have a: "TrimSpace ''@marshal:false'' \<noteq> []" by (simp add: eval_simps)
  have b: "fst (ParseAnnotation ''@marshal:false'' NewEnumConfig) = None"
    by (simp add: eval_simps setBoolOption_known)
  have c: "Marshal (snd (ParseAnnotation ''@marshal:false'' NewEnumConfig))
       = \<lparr>Value = IBool False, Valid = True\<rparr>"
    by (simp add: eval_simps setBoolOption_known)
  have d: "validCount (snd (ParseAnnotation ''@marshal:false'' NewEnumConfig)) \<noteq> 2"
    by (simp add: eval_simps setBoolOption_known validCount_def slots_def NewEnumConfig_def
        zeroValue_def)
  have e: "parsedValue (drop 1 (TrimSpace ''@marshal:false'')) = IBool False"
    by (simp add: eval_simps parsedValue_def afterFirst_def)
  show ?thesis
    using a b c d e C1_fresh_directive [OF a b] by simp
qed

text \<open>
  Claim C2, as stated, fails: \<^verbatim>\<open>@nocase\<close> and then \<^verbatim>\<open>@lower:false\<close>, both accepted,
  leave \<open>CaseInsensitive\<close> set true and \<open>LowercaseLookup\<close> set false.
\<close>

theorem C2_lower_false_after_nocase:
  "fst (applyAll [''@nocase'', ''@lower:false''] NewEnumConfig) = [None, None]
   \<and> \<not> nocaseImpliesLower (snd (applyAll [''@nocase'', ''@lower:false''] NewEnumConfig))"
  by (simp add: eval_simps setBoolOption_known nocaseImpliesLower_def setTo_def)

text \<open>
  Claim C2, amended. From a configuration where the implication "\<open>CaseInsensitive\<close>
  set true implies \<open>LowercaseLookup\<close> set true" holds, applying a directive keeps it
  in every case but one, and loses it in that one: the directive sets \<^verbatim>\<open>lower\<close> to
  false (as \<^verbatim>\<open>@lower:false\<close> does) while \<open>CaseInsensitive\<close> is set true. So the
  implication holds after every sequence of \<^verbatim>\<open>ParseAnnotation\<close> calls from a fresh
  configuration in which that never happens, and it holds after every prefix of a
  sequence exactly when that never happens in the sequence.
\<close>

theorem C2_implication_kept:
  "(nocaseImpliesLower c \<longrightarrow>
      (nocaseImpliesLower (snd (ParseAnnotation d c))
        \<longleftrightarrow> \<not> (setsLowerFalse d \<and> setTo (CaseInsensitive c) True)))
   \<and> (\<not> lowerFalseAfterNocase ds NewEnumConfig \<longrightarrow>
      nocaseImpliesLower (snd (applyAll ds NewEnumConfig)))
   \<and> ((\<forall>n \<le> length ds. nocaseImpliesLower (snd (applyAll (take n ds) NewEnumConfig)))
        \<longleftrightarrow> \<not> lowerFalseAfterNocase ds NewEnumConfig)
   \<and> setsLowerFalse ''@lower:false''"
proof -
  have "setsLowerFalse ''@lower:false''"
    by (simp add: setsLowerFalse_def eval_simps setBoolOption_known)
  then show ?thesis
    using ParseAnnotation_inv_iff [of c d] applyAll_inv_state [OF NewEnumConfig_inv, of ds]
      applyAll_inv_prefixes [OF NewEnumConfig_inv, of ds]
    by blast
qed

theorem C2_implication_kept_witness:
  "nocaseImpliesLower NewEnumConfig
   \<and> setsLowerFalse ''@lower:false''
   \<and> \<not> setTo (CaseInsensitive NewEnumConfig) True
   \<and> nocaseImpliesLower (snd (ParseAnnotation ''@lower:false'' NewEnumConfig))
   \<and> \<not> lowerFalseAfterNocase [''@lower:false'', ''@nocase''] NewEnumConfig
   \<and> nocaseImpliesLower (snd (applyAll [''@lower:false'', ''@nocase''] NewEnumConfig))
   \<and> setTo (CaseInsensitive (snd (applyAll [''@lower:false'', ''@nocase''] NewEnumConfig))) True
   \<and> setTo (LowercaseLookup (snd (applyAll [''@lower:false'', ''@nocase''] NewEnumConfig))) True
   \<and> lowerFalseAfterNocase [''@nocase'', ''@lower:false''] NewEnumConfig"
proof -
  have l: "setsLowerFalse ''@lower:false''"
    by (simp add: setsLowerFalse_def eval_simps setBoolOption_known)
  have n: "\<not> setsLowerFalse ''@nocase''"
    by (simp add: setsLowerFalse_def eval_simps setBoolOption_known NewEnumConfig_def
        zeroValue_def)
  have z: "\<not> setTo (CaseInsensitive NewEnumConfig) True"
    by (simp add: setTo_def NewEnumConfig_def zeroValue_def)
  have a: "\<not> lowerFalseAfterNocase [''@lower:false'', ''@nocase''] NewEnumConfig"
    using n z by simp
  have b: "lowerFalseAfterNocase [''@nocase'', ''@lower:false''] NewEnumConfig"
    using l by (simp add: eval_simps setBoolOption_known setTo_def)
  have c:
    "setTo (CaseInsensitive (snd (applyAll [''@lower:false'', ''@nocase''] NewEnumConfig))) True"
    by (simp add: eval_simps setBoolOption_known setTo_def)
  show ?thesis
    using l z a b c NewEnumConfig_inv
      C2_implication_kept [of NewEnumConfig "''@lower:false''" "[''@lower:false'', ''@nocase'']"]
    by (simp add: nocaseImpliesLower_def)
qed

text \<open>
  Claim C3. The directives \<^verbatim>\<open>@nocase\<close> and \<^verbatim>\<open>@nocase:true\<close>, applied to any
  configuration, set both \<open>CaseInsensitive\<close> and \<open>LowercaseLookup\<close> to the value true
  with the set flag true and change nothing else. The directive \<^verbatim>\<open>@nocase:false\<close> sets
  \<open>CaseInsensitive\<close> to false with the set flag true and changes nothing else: the
  \<open>LowercaseLookup\<close> slot is what it was.
\<close>

theorem C3_nocase_cascade:
  "ParseAnnotation ''@nocase'' c =
     (None, c\<lparr>CaseInsensitive := \<lparr>Value = IBool True, Valid = True\<rparr>,
              LowercaseLookup := \<lparr>Value = IBool True, Valid = True\<rparr>\<rparr>)
   \<and> ParseAnnotation ''@nocase:true'' c =
     (None, c\<lparr>CaseInsensitive := \<lparr>Value = IBool True, Valid = True\<rparr>,
              LowercaseLookup := \<lparr>Value = IBool True, Valid = True\<rparr>\<rparr>)
   \<and> ParseAnnotation ''@nocase:false'' c =
     (None, c\<lparr>CaseInsensitive := \<lparr>Value = IBool False, Valid = True\<rparr>\<rparr>)
   \<and> LowercaseLookup (snd (ParseAnnotation ''@nocase:false'' c)) = LowercaseLookup c"
  by (simp add: eval_simps setBoolOption_known)

text \<open>
  Claim C4. Whenever \<^verbatim>\<open>ParseAnnotation\<close> returns an error, whatever the directive and
  the configuration, the configuration after the call is the configuration before it;
  and the error is one of three: the marker is missing, the boolean key is unknown, or
  the key of a string value is unknown.
\<close>

theorem C4_error_leaves_config:
  assumes "fst (ParseAnnotation s c) \<noteq> None"
  shows "snd (ParseAnnotation s c) = c
     \<and> ((\<exists>a. fst (ParseAnnotation s c) = Some (MustStartWithAt a))
        \<or> (\<exists>k. fst (ParseAnnotation s c) = Some (UnknownAnnotation k))
        \<or> (\<exists>k v. fst (ParseAnnotation s c) = Some (UnknownAnnotationWithValue k v)))"
proof
  show "snd (ParseAnnotation s c) = c"
    using ParseAnnotation_shape [of s] assms
    by (auto simp: setBoolOption_error setStringOption_error)
  show "(\<exists>a. fst (ParseAnnotation s c) = Some (MustStartWithAt a))
        \<or> (\<exists>k. fst (ParseAnnotation s c) = Some (UnknownAnnotation k))
        \<or> (\<exists>k v. fst (ParseAnnotation s c) = Some (UnknownAnnotationWithValue k v))"
    using ParseAnnotation_fst [of s c] assms by blast
qed

text \<open>The three errors at work on a fresh configuration.\<close>

theorem C4_error_leaves_config_witness:
  "ParseAnnotation ''@bogus'' NewEnumConfig = (Some (UnknownAnnotation ''bogus''), NewEnumConfig)
   \<and> ParseAnnotation ''marshal'' NewEnumConfig
       = (Some (MustStartWithAt ''marshal''), NewEnumConfig)
   \<and> ParseAnnotation ''@bogus=1'' NewEnumConfig
       = (Some (UnknownAnnotationWithValue ''bogus'' ''1''), NewEnumConfig)"
proof -
  have a: "fst (ParseAnnotation ''@bogus'' NewEnumConfig) = Some (UnknownAnnotation ''bogus'')"
    by (simp add: eval_simps setBoolOption_def)
  have b: "fst (ParseAnnotation ''marshal'' NewEnumConfig) = Some (MustStartWithAt ''marshal'')"
    by (simp add: eval_simps)
  have c: "fst (ParseAnnotation ''@bogus=1'' NewEnumConfig)
      = Some (UnknownAnnotationWithValue ''bogus'' ''1'')"
    by (simp add: eval_simps setStringOption_def)
  have a': "fst (ParseAnnotation ''@bogus'' NewEnumConfig) \<noteq> None" using a by simp
  have b': "fst (ParseAnnotation ''marshal'' NewEnumConfig) \<noteq> None" using b by simp
  have c': "fst (ParseAnnotation ''@bogus=1'' NewEnumConfig) \<noteq> None" using c by simp
  show ?thesis
    using a b c C4_error_leaves_config [OF a'] C4_error_leaves_config [OF b']
      C4_error_leaves_config [OF c']
    by (simp add: prod_eq_iff)
qed

text \<open>
  Claim C5. The last directive for a key wins. For every boolean key, the directive
  \<^verbatim>\<open>@key:v1\<close> followed by \<^verbatim>\<open>@key:v2\<close> is two calls of the boolean setter, both
  accepted, and for each key the configuration afterwards is the one before with the
  slot of the key set, with the set flag true, to the second value \<open>v2\<close> (for
  \<^verbatim>\<open>nocase\<close> the \<open>CaseInsensitive\<close> slot, with \<open>LowercaseLookup\<close> forced true when
  either value is true); setting the prefix twice leaves the second string. The earlier
  value is gone: for every key other than \<^verbatim>\<open>nocase\<close> the result is that of the second
  call alone, for \<^verbatim>\<open>nocase\<close> the \<open>CaseInsensitive\<close> slot is. In particular
  \<^verbatim>\<open>@marshal:true\<close> followed by \<^verbatim>\<open>@marshal:false\<close>, on any configuration, leaves the
  \<open>Marshal\<close> slot set, with the value false, and nothing else changed.
\<close>

theorem C5_last_directive_wins:
  "(k \<noteq> ''nocase'' \<longrightarrow>
      setBoolOption k v2 (snd (setBoolOption k v1 c)) = setBoolOption k v2 c)
   \<and> CaseInsensitive (snd (setBoolOption ''nocase'' v2 (snd (setBoolOption ''nocase'' v1 c))))
       = CaseInsensitive (snd (setBoolOption ''nocase'' v2 c))
   \<and> setStringOption k s2 (snd (setStringOption k s1 c)) = setStringOption k s2 c
   \<and> ParseAnnotation ''@marshal:false'' (snd (ParseAnnotation ''@marshal:true'' c))
       = (None, c\<lparr>Marshal := \<lparr>Value = IBool False, Valid = True\<rparr>\<rparr>)
   \<and> ParseAnnotation ''@prefix:b'' (snd (ParseAnnotation ''@prefix:a'' c))
       = (None, c\<lparr>Prefix := \<lparr>Value = IString ''b'', Valid = True\<rparr>\<rparr>)
   \<and> (\<forall>j \<in> set boolKeys.
         ParseAnnotation (boolDirective j v2) (snd (ParseAnnotation (boolDirective j v1) c))
           = setBoolOption j v2 (snd (setBoolOption j v1 c))
         \<and> fst (setBoolOption j v2 (snd (setBoolOption j v1 c))) = None)
   \<and> setBoolOption ''noprefix'' v2 (snd (setBoolOption ''noprefix'' v1 c))
       = (None, c\<lparr>NoPrefix := \<lparr>Value = IBool v2, Valid = True\<rparr>\<rparr>)
   \<and> setBoolOption ''noiota'' v2 (snd (setBoolOption ''noiota'' v1 c))
       = (None, c\<lparr>NoIota := \<lparr>Value = IBool v2, Valid = True\<rparr>\<rparr>)
   \<and> setBoolOption ''lower'' v2 (snd (setBoolOption ''lower'' v1 c))
       = (None, c\<lparr>LowercaseLookup := \<lparr>Value = IBool v2, Valid = True\<rparr>\<rparr>)
   \<and> setBoolOption ''marshal'' v2 (snd (setBoolOption ''marshal'' v1 c))
       = (None, c\<lparr>Marshal := \<lparr>Value = IBool v2, Valid = True\<rparr>\<rparr>)
   \<and> setBoolOption ''sql'' v2 (snd (setBoolOption ''sql'' v1 c))
       = (None, c\<lparr>SQL := \<lparr>Value = IBool v2, Valid = True\<rparr>\<rparr>)
   \<and> setBoolOption ''sqlint'' v2 (snd (setBoolOption ''sqlint'' v1 c))
       = (None, c\<lparr>SQLInt := \<lparr>Value = IBool v2, Valid = True\<rparr>\<rparr>)
   \<and> setBoolOption ''flag'' v2 (snd (setBoolOption ''flag'' v1 c))
       = (None, c\<lparr>Flag := \<lparr>Value = IBool v2, Valid = True\<rparr>\<rparr>)
   \<and> setBoolOption ''names'' v2 (snd (setBoolOption ''names'' v1 c))
       = (None, c\<lparr>Names := \<lparr>Value = IBool v2, Valid = True\<rparr>\<rparr>)
   \<and> setBoolOption ''values'' v2 (snd (setBoolOption ''values'' v1 c))
       = (None, c\<lparr>Values := \<lparr>Value = IBool v2, Valid = True\<rparr>\<rparr>)
   \<and> setBoolOption ''nocamel'' v2 (snd (setBoolOption ''nocamel'' v1 c))
       = (None, c\<lparr>LeaveSnakeCase := \<lparr>Value = IBool v2, Valid = True\<rparr>\<rparr>)
   \<and> setBoolOption ''ptr'' v2 (snd (setBoolOption ''ptr'' v1 c))
       = (None, c\<lparr>Ptr := \<lparr>Value = IBool v2, Valid = True\<rparr>\<rparr>)
   \<and> setBoolOption ''sqlnullint'' v2 (snd (setBoolOption ''sqlnullint'' v1 c))
       = (None, c\<lparr>SQLNullInt := \<lparr>Value = IBool v2, Valid = True\<rparr>\<rparr>)
   \<and> setBoolOption ''sqlnullstr'' v2 (snd (setBoolOption ''sqlnullstr'' v1 c))
       = (None, c\<lparr>SQLNullStr := \<lparr>Value = IBool v2, Valid = True\<rparr>\<rparr>)
   \<and> setBoolOption ''mustparse'' v2 (snd (setBoolOption ''mustparse'' v1 c))
       = (None, c\<lparr>MustParse := \<lparr>Value = IBool v2, Valid = True\<rparr>\<rparr>)
   \<and> setBoolOption ''forcelower'' v2 (snd (setBoolOption ''forcelower'' v1 c))
       = (None, c\<lparr>ForceLower := \<lparr>Value = IBool v2, Valid = True\<rparr>\<rparr>)
   \<and> setBoolOption ''forceupper'' v2 (snd (setBoolOption ''forceupper'' v1 c))
       = (None, c\<lparr>ForceUpper := \<lparr>Value = IBool v2, Valid = True\<rparr>\<rparr>)
   \<and> setBoolOption ''nocomments'' v2 (snd (setBoolOption ''nocomments'' v1 c))
       = (None, c\<lparr>NoComments := \<lparr>Value = IBool v2, Valid = True\<rparr>\<rparr>)
   \<and> setBoolOption ''noparse'' v2 (snd (setBoolOption ''noparse'' v1 c))
       = (None, c\<lparr>NoParse := \<lparr>Value = IBool v2, Valid = True\<rparr>\<rparr>)
   \<and> setBoolOption ''nocase'' True (snd (setBoolOption ''nocase'' v1 c))
       = (None, c\<lparr>CaseInsensitive := \<lparr>Value = IBool True, Valid = True\<rparr>,
                LowercaseLookup := \<lparr>Value = IBool True, Valid = True\<rparr>\<rparr>)
   \<and> setBoolOption ''nocase'' False (snd (setBoolOption ''nocase'' True c))
       = (None, c\<lparr>CaseInsensitive := \<lparr>Value = IBool False, Valid = True\<rparr>,
                LowercaseLookup := \<lparr>Value = IBool True, Valid = True\<rparr>\<rparr>)
   \<and> setBoolOption ''nocase'' False (snd (setBoolOption ''nocase'' False c))
       = (None, c\<lparr>CaseInsensitive := \<lparr>Value = IBool False, Valid = True\<rparr>\<rparr>)
   \<and> setStringOption ''prefix'' s2 (snd (setStringOption ''prefix'' s1 c))
       = (None, c\<lparr>Prefix := \<lparr>Value = IString s2, Valid = True\<rparr>\<rparr>)"
proof (intro conjI impI ballI)
  show "ParseAnnotation ''@marshal:false'' (snd (ParseAnnotation ''@marshal:true'' c))
       = (None, c\<lparr>Marshal := \<lparr>Value = IBool False, Valid = True\<rparr>\<rparr>)"
    by (simp add: eval_simps setBoolOption_known)
  show "ParseAnnotation ''@prefix:b'' (snd (ParseAnnotation ''@prefix:a'' c))
       = (None, c\<lparr>Prefix := \<lparr>Value = IString ''b'', Valid = True\<rparr>\<rparr>)"
    by (simp add: eval_simps setStringOption_def)
  show "ParseAnnotation (boolDirective j v2) (snd (ParseAnnotation (boolDirective j v1) c))
           = setBoolOption j v2 (snd (setBoolOption j v1 c))"
    if "j \<in> set boolKeys" for j
    using boolKeys_plain [OF that] by (simp add: ParseAnnotation_boolDirective)
  show "fst (setBoolOption j v2 (snd (setBoolOption j v1 c))) = None"
    if "j \<in> set boolKeys" for j
    using that by (rule setBoolOption_accepts)
qed (rule setBoolOption_last setBoolOption_nocase_last setStringOption_last
      setBoolOption_twice setStringOption_twice; assumption?)+

theorem C5_last_directive_wins_witness:
  "''marshal'' \<noteq> ''nocase''
   \<and> ''marshal'' \<in> set boolKeys
   \<and> boolDirective ''marshal'' True = ''@marshal:true''
   \<and> boolDirective ''marshal'' False = ''@marshal:false''
   \<and> ParseAnnotation ''@marshal:false'' (snd (ParseAnnotation ''@marshal:true'' NewEnumConfig))
       = (None, NewEnumConfig\<lparr>Marshal := \<lparr>Value = IBool False, Valid = True\<rparr>\<rparr>)
   \<and> setBoolOption ''marshal'' False (snd (setBoolOption ''marshal'' True NewEnumConfig))
       = setBoolOption ''marshal'' False NewEnumConfig"
proof -
  have m: "''marshal'' \<in> set boolKeys" by (simp add: boolKeys_def)
  have d: "boolDirective ''marshal'' True = ''@marshal:true''"
    "boolDirective ''marshal'' False = ''@marshal:false''"
    by (simp_all add: boolDirective_def boolText_def)
  show ?thesis
    using m d C5_last_directive_wins [of "''marshal''" False True NewEnumConfig]
    by simp
qed

text \<open>
  Claim C6. For every directive string \<open>d\<close> and every configuration \<open>c\<close>, applying
  \<open>d\<close> a second time returns the same error (or none) and the same configuration as
  applying it once.
\<close>

theorem C6_ParseAnnotation_idempotent:
  "ParseAnnotation d (snd (ParseAnnotation d c)) = ParseAnnotation d c"
  using ParseAnnotation_shape [of d]
  by (auto simp: setBoolOption_idem setStringOption_idem)

text \<open>
  Claim C7. One grammar form is tried for a directive, by the separators its body (the
  text after the marker) contains. With a \<^verbatim>\<open>:\<close> in it, also when there is a \<^verbatim>\<open>=\<close> too,
  the body is split at the first \<^verbatim>\<open>:\<close>: the literals \<^verbatim>\<open>true\<close> and \<^verbatim>\<open>false\<close> go to the
  boolean setter, any other value goes to the string setter without its quotes. With
  a \<^verbatim>\<open>=\<close> and no \<^verbatim>\<open>:\<close>, the body is split at the first \<^verbatim>\<open>=\<close> and goes to the string
  setter, never to the boolean one. With neither, the body is a boolean key set to true.
  The string setter refuses every boolean key, so \<^verbatim>\<open>@marshal=true\<close> is the error
  "unknown annotation with value" and sets nothing.
\<close>

theorem C7_one_form_per_directive:
  assumes "TrimSpace s = CHR ''@'' # body"
  shows "(CHR '':'' \<in> set body \<longrightarrow>
           ParseAnnotation s c =
             (let key = TrimSpace (beforeFirst CHR '':'' body);
                  val = TrimSpace (afterFirst CHR '':'' body)
              in if val = ''true'' then setBoolOption key True c
                 else if val = ''false'' then setBoolOption key False c
                 else setStringOption key (stripQuotes val) c))
       \<and> (CHR '':'' \<notin> set body \<and> CHR ''='' \<in> set body \<longrightarrow>
           ParseAnnotation s c =
             setStringOption (TrimSpace (beforeFirst CHR ''='' body))
               (stripQuotes (TrimSpace (afterFirst CHR ''='' body))) c)
       \<and> (CHR '':'' \<notin> set body \<and> CHR ''='' \<notin> set body \<longrightarrow>
           ParseAnnotation s c = setBoolOption body True c)
       \<and> (\<forall>k \<in> set boolKeys.
             setStringOption k v c = (Some (UnknownAnnotationWithValue k v), c))
       \<and> ParseAnnotation ''@marshal=true'' c
           = (Some (UnknownAnnotationWithValue ''marshal'' ''true''), c)"
proof -
  have "\<forall>k \<in> set boolKeys. setStringOption k v c = (Some (UnknownAnnotationWithValue k v), c)"
    by (simp add: boolKeys_def setStringOption_def)
  moreover have "ParseAnnotation ''@marshal=true'' c
           = (Some (UnknownAnnotationWithValue ''marshal'' ''true''), c)"
    by (simp add: eval_simps setStringOption_def)
  ultimately show ?thesis
    using ParseAnnotation_body [OF assms, of c] by simp
qed

theorem C7_one_form_per_directive_witness:
  "ParseAnnotation ''@prefix:a=b'' NewEnumConfig
     = (None, NewEnumConfig\<lparr>Prefix := \<lparr>Value = IString ''a=b'', Valid = True\<rparr>\<rparr>)
   \<and> ParseAnnotation ''@prefix=a'' NewEnumConfig
     = (None, NewEnumConfig\<lparr>Prefix := \<lparr>Value = IString ''a'', Valid = True\<rparr>\<rparr>)
   \<and> ParseAnnotation ''@marshal'' NewEnumConfig
     = (None, NewEnumConfig\<lparr>Marshal := \<lparr>Value = IBool True, Valid = True\<rparr>\<rparr>)
   \<and> setStringOption ''marshal'' ''true'' NewEnumConfig
     = (Some (UnknownAnnotationWithValue ''marshal'' ''true''), NewEnumConfig)"
proof -
  have t: "TrimSpace ''@prefix:a=b'' = CHR ''@'' # ''prefix:a=b''"
    "TrimSpace ''@prefix=a'' = CHR ''@'' # ''prefix=a''"
    "TrimSpace ''@marshal'' = CHR ''@'' # ''marshal''"
    by (simp_all add: eval_simps)
  have m: "''marshal'' \<in> set boolKeys" by (simp add: boolKeys_def)
  show ?thesis
    using C7_one_form_per_directive [OF t(1), of NewEnumConfig "''true''"]
      C7_one_form_per_directive [OF t(2), of NewEnumConfig "''true''"]
      C7_one_form_per_directive [OF t(3), of NewEnumConfig "''true''"] m
    by (simp add: beforeFirst_def afterFirst_def eval_simps setStringOption_def
        setBoolOption_known)
qed

text \<open>
  Claim C8. The key of a bare-key directive is not trimmed. \<^verbatim>\<open>@ marshal\<close>, with a
  space between the marker and the key, is the error "unknown annotation" on the key
  \<^verbatim>\<open>" marshal"\<close> and leaves the configuration as it was, where \<^verbatim>\<open>@marshal\<close> sets
  the \<open>Marshal\<close> slot. The other two forms do trim their key: \<^verbatim>\<open>@ marshal:true\<close> and
  \<^verbatim>\<open>@ prefix=My\<close> set their slots.
\<close>

theorem C8_bare_key_not_trimmed:
  "ParseAnnotation ''@ marshal'' c = (Some (UnknownAnnotation '' marshal''), c)
   \<and> ParseAnnotation ''@marshal'' c
       = (None, c\<lparr>Marshal := \<lparr>Value = IBool True, Valid = True\<rparr>\<rparr>)
   \<and> ParseAnnotation ''@ marshal:true'' c
       = (None, c\<lparr>Marshal := \<lparr>Value = IBool True, Valid = True\<rparr>\<rparr>)
   \<and> ParseAnnotation ''@ prefix=My'' c
       = (None, c\<lparr>Prefix := \<lparr>Value = IString ''My'', Valid = True\<rparr>\<rparr>)"
  by (simp add: eval_simps setBoolOption_known setStringOption_def)
    (simp add: setBoolOption_def)

text \<open>
  Claim C9, as stated, fails for a set slot of the \<^verbatim>\<open>interface{}\<close> version whose
  value is not of the type that is read. The \<open>Prefix\<close> slot after \<^verbatim>\<open>@prefix:My\<close> is
  set and holds the string \<^verbatim>\<open>My\<close>; \<^verbatim>\<open>GetBool\<close> on it returns the default it is
  given, true for true and false for false, not the stored value.
\<close>

theorem C9_valid_slot_of_other_type:
  "Valid \<lparr>Value = IString ''My'', Valid = True\<rparr>
   \<and> IBool (GetBool \<lparr>Value = IString ''My'', Valid = True\<rparr> True)
       \<noteq> Value \<lparr>Value = IString ''My'', Valid = True\<rparr>
   \<and> GetBool \<lparr>Value = IString ''My'', Valid = True\<rparr> True = True
   \<and> GetBool \<lparr>Value = IString ''My'', Valid = True\<rparr> False = False
   \<and> Prefix (snd (ParseAnnotation ''@prefix:My'' NewEnumConfig))
       = \<lparr>Value = IString ''My'', Valid = True\<rparr>"
  by (simp add: GetBool_def eval_simps setStringOption_def)

text \<open>
  Claim C9, amended. An unset slot reads as the default the caller gives, in both
  versions. A set slot of the \<^verbatim>\<open>interface{}\<close> version reads as the stored value when
  that value has the type that is read (a \<^verbatim>\<open>bool\<close> for \<^verbatim>\<open>GetBool\<close>, a \<^verbatim>\<open>string\<close>
  for \<^verbatim>\<open>GetString\<close>) and as the default when it has not. A set slot of the generic
  version always reads as the stored value.
\<close>

theorem C9_reads:
  "(\<not> Valid v \<longrightarrow> GetBool v d = d \<and> GetString v s = s)
   \<and> (Valid v \<and> Value v = IBool b \<longrightarrow> GetBool v d = b)
   \<and> (Valid v \<and> Value v = IString t \<longrightarrow> GetString v s = t)
   \<and> (Valid v \<and> (\<forall>b. Value v \<noteq> IBool b) \<longrightarrow> GetBool v d = d)
   \<and> (Valid v \<and> (\<forall>t. Value v \<noteq> IString t) \<longrightarrow> GetString v s = s)
   \<and> (\<not> Valid_g w \<longrightarrow> GetBool_g w e = e \<and> GetString_g w e = e)
   \<and> (Valid_g w \<longrightarrow> GetBool_g w e = Value_g w \<and> GetString_g w e = Value_g w)"
  by (cases "Value v") (auto simp: GetBool_def GetString_def GetBool_g_def GetString_g_def)

theorem C9_reads_witness:
  "GetBool \<lparr>Value = INil, Valid = False\<rparr> True = True
   \<and> GetString \<lparr>Value = INil, Valid = False\<rparr> ''d'' = ''d''
   \<and> GetBool \<lparr>Value = IBool False, Valid = True\<rparr> True = False
   \<and> GetString \<lparr>Value = IString ''x'', Valid = True\<rparr> ''d'' = ''x''
   \<and> GetBool \<lparr>Value = IString ''x'', Valid = True\<rparr> True = True
   \<and> GetString \<lparr>Value = IBool False, Valid = True\<rparr> ''d'' = ''d''
   \<and> GetBool_g \<lparr>Value_g = False, Valid_g = False\<rparr> True = True
   \<and> GetBool_g \<lparr>Value_g = False, Valid_g = True\<rparr> True = False
   \<and> GetString_g \<lparr>Value_g = ''x'', Valid_g = True\<rparr> ''d'' = ''x''"
  using
    C9_reads [of "\<lparr>Value = INil, Valid = False\<rparr>" True "''d''" False "''x''"
      "\<lparr>Value_g = False, Valid_g = False\<rparr>" True]
    C9_reads [of "\<lparr>Value = IBool False, Valid = True\<rparr>" True "''d''" False "''x''"
      "\<lparr>Value_g = False, Valid_g = True\<rparr>" True]
    C9_reads [of "\<lparr>Value = IString ''x'', Valid = True\<rparr>" True "''d''" False "''x''"
      "\<lparr>Value_g = ''x'', Valid_g = True\<rparr>" "''d''"]
  by simp

text \<open>
  Claim C10. For every sequence of annotation strings applied to a fresh configuration,
  the \<^verbatim>\<open>interface{}\<close> version and the generic version of \<^verbatim>\<open>ParseAnnotation\<close>
  return the same outcome (no error, or the same error) at every call, and afterwards
  \<^verbatim>\<open>GetBool\<close> on each of the nineteen boolean slots and \<^verbatim>\<open>GetString\<close> on the prefix
  slot return the same result in both versions, for every default.
\<close>

theorem C10_versions_agree:
  "fst (applyAll ds NewEnumConfig) = fst (applyAll_g ds NewEnumConfig_g)
   \<and> GetBool (NoPrefix (snd (applyAll ds NewEnumConfig))) d = GetBool_g (NoPrefix_g (snd (applyAll_g ds NewEnumConfig_g))) d
   \<and> GetBool (NoIota (snd (applyAll ds NewEnumConfig))) d = GetBool_g (NoIota_g (snd (applyAll_g ds NewEnumConfig_g))) d
   \<and> GetBool (LowercaseLookup (snd (applyAll ds NewEnumConfig))) d = GetBool_g (LowercaseLookup_g (snd (applyAll_g ds NewEnumConfig_g))) d
   \<and> GetBool (CaseInsensitive (snd (applyAll ds NewEnumConfig))) d = GetBool_g (CaseInsensitive_g (snd (applyAll_g ds NewEnumConfig_g))) d
   \<and> GetBool (Marshal (snd (applyAll ds NewEnumConfig))) d = GetBool_g (Marshal_g (snd (applyAll_g ds NewEnumConfig_g))) d
   \<and> GetBool (SQL (snd (applyAll ds NewEnumConfig))) d = GetBool_g (SQL_g (snd (applyAll_g ds NewEnumConfig_g))) d
   \<and> GetBool (SQLInt (snd (applyAll ds NewEnumConfig))) d = GetBool_g (SQLInt_g (snd (applyAll_g ds NewEnumConfig_g))) d
   \<and> GetBool (Flag (snd (applyAll ds NewEnumConfig))) d = GetBool_g (Flag_g (snd (applyAll_g ds NewEnumConfig_g))) d
   \<and> GetBool (Names (snd (applyAll ds NewEnumConfig))) d = GetBool_g (Names_g (snd (applyAll_g ds NewEnumConfig_g))) d
   \<and> GetBool (Values (snd (applyAll ds NewEnumConfig))) d = GetBool_g (Values_g (snd (applyAll_g ds NewEnumConfig_g))) d
   \<and> GetBool (LeaveSnakeCase (snd (applyAll ds NewEnumConfig))) d = GetBool_g (LeaveSnakeCase_g (snd (applyAll_g ds NewEnumConfig_g))) d
   \<and> GetBool (Ptr (snd (applyAll ds NewEnumConfig))) d = GetBool_g (Ptr_g (snd (applyAll_g ds NewEnumConfig_g))) d
   \<and> GetBool (SQLNullInt (snd (applyAll ds NewEnumConfig))) d = GetBool_g (SQLNullInt_g (snd (applyAll_g ds NewEnumConfig_g))) d
   \<and> GetBool (SQLNullStr (snd (applyAll ds NewEnumConfig))) d = GetBool_g (SQLNullStr_g (snd (applyAll_g ds NewEnumConfig_g))) d
   \<and> GetBool (MustParse (snd (applyAll ds NewEnumConfig))) d = GetBool_g (MustParse_g (snd (applyAll_g ds NewEnumConfig_g))) d
   \<and> GetBool (ForceLower (snd (applyAll ds NewEnumConfig))) d = GetBool_g (ForceLower_g (snd (applyAll_g ds NewEnumConfig_g))) d
   \<and> GetBool (ForceUpper (snd (applyAll ds NewEnumConfig))) d = GetBool_g (ForceUpper_g (snd (applyAll_g ds NewEnumConfig_g))) d
   \<and> GetBool (NoComments (snd (applyAll ds NewEnumConfig))) d = GetBool_g (NoComments_g (snd (applyAll_g ds NewEnumConfig_g))) d
   \<and> GetBool (NoParse (snd (applyAll ds NewEnumConfig))) d = GetBool_g (NoParse_g (snd (applyAll_g ds NewEnumConfig_g))) d
   \<and> GetString (Prefix (snd (applyAll ds NewEnumConfig))) t = GetString_g (Prefix_g (snd (applyAll_g ds NewEnumConfig_g))) t"
proof -
  from applyAll_same [OF NewEnumConfig_same, of ds]
  have e: "fst (applyAll ds NewEnumConfig) = fst (applyAll_g ds NewEnumConfig_g)"
    and s: "sameConfig (snd (applyAll ds NewEnumConfig)) (snd (applyAll_g ds NewEnumConfig_g))"
    by simp_all
  from s show ?thesis
    unfolding sameConfig_def
    by (intro conjI) (rule e, (rule sameBool_GetBool sameString_GetString, blast)+)
qed

end
